theory Spec2Isabelle
  imports Main "HOL-Library.Word" "HOL-Library.Sublist" "HOL-Library.AList"
begin

section \<open>The OCI registry store of integration-oci (storage package)\<close>

text \<open>
  A shallow embedding of the Go package \<open>storage\<close>: the store handle, the dispatcher
  (\<open>List\<close>, \<open>Put\<close>, \<open>Get\<close>, \<open>Delete\<close>), the tag-manifest protocol (\<open>putByTag\<close>,
  \<open>getByTag\<close>, \<open>deleteByTag\<close>), the key-space enumeration (\<open>listByPrefix\<close>), the blob
  upload protocol (\<open>uploadBlob\<close>) and the transport primitive (\<open>do\<close>).

  Go strings and byte slices are both byte sequences; they are \<open>string\<close> here (a list
  of 8-bit characters). \<open>int64\<close> and \<open>uint64\<close> are \<open>64 word\<close>. A Go function
  returning \<open>(T, error)\<close> whose value is unused on error is a sum \<open>error + T\<close>; \<open>Put\<close>
  and \<open>putByTag\<close>, which return a number together with the error, are a pair.
\<close>

type_synonym bytes = string

subsection \<open>Errors\<close>

datatype error =
    ErrUnsupported                            \<comment> \<open>\<open>errors.ErrUnsupported\<close>\<close>
  | Errorf string                             \<comment> \<open>\<open>fmt.Errorf\<close> of a fixed message\<close>
  | ErrorfWrap string error                   \<comment> \<open>\<open>fmt.Errorf("...: %w", err)\<close>\<close>
  | ErrStatus string string string string     \<comment> \<open>\<open>fmt.Errorf("oci %s %s: %s: %s", method, url, status, body)\<close>\<close>
  | InvalidByteError char                     \<comment> \<open>\<open>hex.InvalidByteError\<close>\<close>
  | ErrLength                                 \<comment> \<open>\<open>hex.ErrLength\<close>\<close>
  | ErrExternal string                        \<comment> \<open>an error of the standard library or of the network\<close>

subsection \<open>Data\<close>

text \<open>\<open>storage.StorageResource\<close> is an integer type of the kloset module; the store names
  three of its values, every other value is \<open>StorageResourceOther\<close>.\<close>

datatype StorageResource =
    StorageResourcePackfile
  | StorageResourceState
  | StorageResourceLock
  | StorageResourceOther nat

text \<open>\<open>objects.MAC\<close> is \<open>[32]byte\<close>: a byte sequence, of length 32 where a claim says so.\<close>

type_synonym MAC = bytes

text \<open>\<open>storage.Range\<close> of the kloset module: \<open>Offset uint64\<close>, \<open>Length uint32\<close>.\<close>

record storage_Range =
  Offset :: "64 word"
  Length :: "32 word"

record tls_Config =
  InsecureSkipVerify :: bool

record http_Transport =
  TLSClientConfig :: tls_Config

record http_Client =
  Transport :: http_Transport
  Timeout :: int

record ociStore =
  client :: http_Client
  base :: string
  repo :: string

record descriptor =
  MediaType :: string
  Digest :: string
  Size :: "64 word"

record ociManifest =
  SchemaVersion :: int
  ManifestMediaType :: string
  Config :: descriptor
  Layers :: "descriptor list"

record tagsList =
  Name :: string
  Tags :: "string list"

text \<open>\<open>url.URL\<close>.\<close>

record URL =
  Scheme :: string
  Opaque :: string
  User :: "(string \<times> string option) option"
  Host :: string
  Path :: string
  RawPath :: string
  OmitHost :: bool
  ForceQuery :: bool
  RawQuery :: string
  Fragment :: string
  RawFragment :: string

subsection \<open>HTTP messages\<close>

text \<open>\<open>http.Header\<close> is a map from a canonical header name to its values. The names the
  store uses are canonical as written, so \<open>Set\<close>, \<open>Add\<close> and \<open>Get\<close> take them as they are.
  A nil header and an empty one behave alike everywhere in the package; both are \<open>[]\<close>.\<close>

type_synonym header = "(string \<times> string list) list"

definition header_values :: "header \<Rightarrow> string \<Rightarrow> string list" where
  "header_values h k = (case map_of h k of None \<Rightarrow> [] | Some vs \<Rightarrow> vs)"

definition header_Get :: "header \<Rightarrow> string \<Rightarrow> string" where
  "header_Get h k = (case header_values h k of [] \<Rightarrow> [] | v # _ \<Rightarrow> v)"

definition header_Set :: "header \<Rightarrow> string \<Rightarrow> string \<Rightarrow> header" where
  "header_Set h k v = AList.update k [v] h"

definition header_Add :: "header \<Rightarrow> string \<Rightarrow> string \<Rightarrow> header" where
  "header_Add h k v = AList.update k (header_values h k @ [v]) h"

text \<open>The loop \<open>for k, vv := range headers { for _, v := range vv { dst.Add(k, v) } }\<close>.\<close>

definition add_all :: "header \<Rightarrow> header \<Rightarrow> header" where
  "add_all headers dst = fold (\<lambda>(k, vv) acc. fold (\<lambda>v acc'. header_Add acc' k v) vv acc) headers dst"

record request =
  rq_Method :: string
  rq_URL :: string
  rq_Body :: "bytes option"
  rq_Header :: header

text \<open>A response of \<open>http.Client.Do\<close>; the client guarantees a non-nil body.\<close>

record response =
  StatusCode :: int
  Status :: string
  Header :: header
  Body :: bytes

subsection \<open>Standard library: strings, formatting, hex, query escaping\<close>

text \<open>\<open>strings.HasPrefix\<close>, \<open>strings.TrimPrefix\<close>, \<open>strings.Contains\<close>.\<close>

definition strings_HasPrefix :: "string \<Rightarrow> string \<Rightarrow> bool" where
  "strings_HasPrefix s p = (length p \<le> length s \<and> take (length p) s = p)"

definition strings_TrimPrefix :: "string \<Rightarrow> string \<Rightarrow> string" where
  "strings_TrimPrefix s p = (if strings_HasPrefix s p then drop (length p) s else s)"

fun strings_Contains :: "string \<Rightarrow> string \<Rightarrow> bool" where
  "strings_Contains [] sub = (sub = [])"
| "strings_Contains (c # s) sub = (strings_HasPrefix (c # s) sub \<or> strings_Contains s sub)"

text \<open>\<open>strings.TrimRight(s, "/")\<close> and \<open>strings.Trim(s, "/")\<close>, for a one-character cutset.\<close>

definition strings_TrimRight :: "string \<Rightarrow> char \<Rightarrow> string" where
  "strings_TrimRight s c = rev (dropWhile (\<lambda>x. x = c) (rev s))"

definition strings_Trim :: "string \<Rightarrow> char \<Rightarrow> string" where
  "strings_Trim s c = strings_TrimRight (dropWhile (\<lambda>x. x = c) s) c"

text \<open>\<open>strings.Split(s, sep)\<close> for a one-character separator: the pieces between the
  separators, one more than there are separators.\<close>

fun split_from :: "string \<Rightarrow> char \<Rightarrow> string \<Rightarrow> string list" where
  "split_from cur sep [] = [rev cur]"
| "split_from cur sep (c # s) =
     (if c = sep then rev cur # split_from [] sep s else split_from (c # cur) sep s)"

definition strings_Split :: "string \<Rightarrow> char \<Rightarrow> string list" where
  "strings_Split s sep = split_from [] sep s"

text \<open>The verb \<open>%d\<close> on an unsigned integer. The digits come from a table, as in Go.\<close>

definition digit_char :: "nat \<Rightarrow> char" where
  "digit_char d = ''0123456789'' ! d"

fun fmt_d :: "nat \<Rightarrow> string" where
  "fmt_d n = (if n < 10 then [digit_char n] else fmt_d (n div 10) @ [digit_char (n mod 10)])"

declare fmt_d.simps [simp del]

text \<open>The verb \<open>%x\<close> on a byte array or slice: two lowercase hex digits a byte.\<close>

definition hex_digit :: "nat \<Rightarrow> char" where
  "hex_digit d = ''0123456789abcdef'' ! d"

definition upper_hex_digit :: "nat \<Rightarrow> char" where
  "upper_hex_digit d = ''0123456789ABCDEF'' ! d"

definition fmt_x :: "bytes \<Rightarrow> string" where
  "fmt_x bs = concat (map (\<lambda>b. [hex_digit (of_char b div 16), hex_digit (of_char b mod 16)]) bs)"

text \<open>\<open>hex.DecodeString\<close>: the bytes decoded so far and the error, as Go returns both.
  \<open>fromHexChar\<close> is the package's \<open>reverseHexTable\<close>.\<close>

definition fromHexChar :: "char \<Rightarrow> nat option" where
  "fromHexChar c =
     (let n = (of_char c :: nat) in
      if 48 \<le> n \<and> n \<le> 57 then Some (n - 48)
      else if 97 \<le> n \<and> n \<le> 102 then Some (n - 87)
      else if 65 \<le> n \<and> n \<le> 70 then Some (n - 55)
      else None)"

fun hex_DecodeString :: "string \<Rightarrow> bytes \<times> error option" where
  "hex_DecodeString [] = ([], None)"
| "hex_DecodeString [p] =
     (case fromHexChar p of None \<Rightarrow> ([], Some (InvalidByteError p)) | Some a \<Rightarrow> ([], Some ErrLength))"
| "hex_DecodeString (p # q # rest) =
     (case fromHexChar p of
        None \<Rightarrow> ([], Some (InvalidByteError p))
      | Some a \<Rightarrow>
          (case fromHexChar q of
             None \<Rightarrow> ([], Some (InvalidByteError q))
           | Some b \<Rightarrow>
               (case hex_DecodeString rest of (bs, e) \<Rightarrow> (char_of (16 * a + b) # bs, e))))"

text \<open>\<open>url.QueryEscape\<close>: letters, digits and \<open>- _ . ~\<close> stay, a space becomes \<open>+\<close>, every
  other byte becomes \<open>%XX\<close> in upper-case hex.\<close>

definition unreserved :: "char \<Rightarrow> bool" where
  "unreserved c =
     (let n = (of_char c :: nat) in
      (97 \<le> n \<and> n \<le> 122) \<or> (65 \<le> n \<and> n \<le> 90) \<or> (48 \<le> n \<and> n \<le> 57)
      \<or> c = CHR ''-'' \<or> c = CHR ''_'' \<or> c = CHR ''.'' \<or> c = CHR ''~'')"

definition escape_byte :: "char \<Rightarrow> string" where
  "escape_byte c =
     (if unreserved c then [c]
      else if c = CHR '' '' then ''+''
      else [CHR ''%'', upper_hex_digit (of_char c div 16), upper_hex_digit (of_char c mod 16)])"

definition url_QueryEscape :: "string \<Rightarrow> string" where
  "url_QueryEscape s = concat (map escape_byte s)"

subsection \<open>Standard library and network, as parameters\<close>

text \<open>
  The functions of the Go standard library that the package calls and that are not
  modelled above are parameters of the model, one field each:
  \<^item> \<open>sha256_Sum\<close>: the SHA-256 sum of a byte sequence;
  \<^item> \<open>url_Parse\<close> and \<open>url_String\<close>: \<open>url.Parse\<close> and \<open>(*URL).String\<close>;
  \<^item> \<open>url_EscapedPath\<close>, \<open>url_resolvePath\<close>, \<open>url_unescape\<close>, \<open>url_escape\<close>: the
    helpers \<open>(*URL).EscapedPath\<close>, \<open>resolvePath\<close>, and \<open>unescape\<close> and \<open>escape\<close> in path
    mode, which \<open>(*URL).ResolveReference\<close> calls; \<open>ResolveReference\<close> itself is
    modelled below;
  \<^item> \<open>json_Marshal\<close>, \<open>json_Decode_manifest\<close>, \<open>json_Decode_tagsList\<close>: \<open>encoding/json\<close>
    on the two shapes the package uses;
  \<^item> \<open>fmt_Sscanf_d\<close>: \<open>fmt.Sscanf(s, "%d", &v)\<close> for an \<open>int64\<close>, \<open>None\<close> when the scan
    fails and leaves \<open>v\<close> as it was;
  \<^item> \<open>strings_TrimSpace\<close>.
  Every theorem below holds for every value of these parameters unless it says otherwise.
\<close>

record golib =
  sha256_Sum :: "bytes \<Rightarrow> bytes"
  url_Parse :: "string \<Rightarrow> error + URL"
  url_String :: "URL \<Rightarrow> string"
  url_EscapedPath :: "URL \<Rightarrow> string"
  url_resolvePath :: "string \<Rightarrow> string \<Rightarrow> string"
  url_unescape :: "string \<Rightarrow> error + string"
  url_escape :: "string \<Rightarrow> string"
  json_Marshal :: "ociManifest \<Rightarrow> error + bytes"
  json_Decode_manifest :: "bytes \<Rightarrow> error + ociManifest"
  json_Decode_tagsList :: "bytes \<Rightarrow> error + tagsList"
  fmt_Sscanf_d :: "string \<Rightarrow> 64 word option"
  strings_TrimSpace :: "string \<Rightarrow> string"

text \<open>
  \<open>(*URL).setPath\<close> and \<open>(*URL).ResolveReference\<close> of \<open>net/url\<close>, statement by statement.
  \<open>setPath\<close> stores the unescaped path, and the raw path when it is not the default
  encoding; on an unescape error it leaves the URL as it is (\<open>ResolveReference\<close> drops
  that error). \<open>ResolveReference\<close> starts from a copy of the reference. A reference with
  a scheme, a host or user information is absolute: it keeps its own authority and the
  base is ignored. A reference with none of them takes the scheme of the base, and,
  unless it or (when its path is empty) the base is opaque, the host and the user
  information of the base, with its path resolved against that of the base.
\<close>

definition url_setPath :: "golib \<Rightarrow> URL \<Rightarrow> string \<Rightarrow> URL" where
  "url_setPath lib u p =
     (case url_unescape lib p of
        Inl err \<Rightarrow> u
      | Inr path \<Rightarrow> u\<lparr>Path := path, RawPath := (if p = url_escape lib path then [] else p)\<rparr>)"

definition url_ResolveReference :: "golib \<Rightarrow> URL \<Rightarrow> URL \<Rightarrow> URL" where
  "url_ResolveReference lib u ref =
     (let url = (if Scheme ref = [] then ref\<lparr>Scheme := Scheme u\<rparr> else ref) in
      if Scheme ref \<noteq> [] \<or> Host ref \<noteq> [] \<or> User ref \<noteq> None then
        url_setPath lib url (url_resolvePath lib (url_EscapedPath lib ref) [])
      else if Opaque ref \<noteq> [] then url\<lparr>User := None, Host := [], Path := []\<rparr>
      else
        let url1 = (if Path ref = [] \<and> \<not> ForceQuery ref \<and> RawQuery ref = []
                    then (let url' = url\<lparr>RawQuery := RawQuery u\<rparr> in
                          if Fragment ref = []
                          then url'\<lparr>Fragment := Fragment u, RawFragment := RawFragment u\<rparr>
                          else url')
                    else url)
        in if Path ref = [] \<and> Opaque u \<noteq> []
           then url1\<lparr>Opaque := Opaque u, User := None, Host := [], Path := []\<rparr>
           else url_setPath lib (url1\<lparr>Host := Host u, User := User u\<rparr>)
                  (url_resolvePath lib (url_EscapedPath lib u) (url_EscapedPath lib ref)))"

text \<open>
  The network is a state machine: a transport takes a request and the state of the
  world and gives a response or an error, and the next state. It stands for
  \<open>http.NewRequestWithContext\<close> followed by \<open>http.Client.Do\<close>; its error is the error
  of either. The client threads the world and the list of the requests it has handed to
  the transport, in order.
\<close>

type_synonym 'w transport = "request \<Rightarrow> 'w \<Rightarrow> (error + response) \<times> 'w"

record 'w net =
  world :: 'w
  sent :: "request list"

subsection \<open>The store handle\<close>


subsection \<open>OCI HTTP primitives\<close>

definition baseURL :: "ociStore \<Rightarrow> string \<Rightarrow> string" where
  "baseURL s p = base s @ ''/v2/'' @ p"

definition repoBase :: "ociStore \<Rightarrow> string" where
  "repoBase s = repo s"

text \<open>The transport primitive. A status outside 200..299 is an error carrying the
  method, the URL, the status line and at most 64 KiB of the body.\<close>

definition do ::
  "golib \<Rightarrow> 'w transport \<Rightarrow> string \<Rightarrow> string \<Rightarrow> bytes option \<Rightarrow> header \<Rightarrow> 'w net
     \<Rightarrow> (error + bytes \<times> response) \<times> 'w net" where
  "do lib tr method fullURL body headers st =
     (let req = \<lparr>rq_Method = method, rq_URL = fullURL, rq_Body = body,
                 rq_Header = add_all headers []\<rparr>;
          (r, w) = tr req (world st);
          st' = \<lparr>world = w, sent = sent st @ [req]\<rparr>
      in case r of
           Inl err \<Rightarrow> (Inl err, st')
         | Inr resp \<Rightarrow>
             if 200 \<le> StatusCode resp \<and> StatusCode resp < 300 then (Inr (Body resp, resp), st')
             else (Inl (ErrStatus method fullURL (Status resp)
                          (strings_TrimSpace lib (take 65536 (Body resp)))), st'))"

definition doRepo ::
  "golib \<Rightarrow> 'w transport \<Rightarrow> ociStore \<Rightarrow> string \<Rightarrow> string \<Rightarrow> bytes option \<Rightarrow> header \<Rightarrow> 'w net
     \<Rightarrow> (error + response) \<times> 'w net" where
  "doRepo lib tr s method p body headers st =
     (case do lib tr method (baseURL s (repoBase s @ p)) body headers st of
        (Inl err, st') \<Rightarrow> (Inl err, st')
      | (Inr (rc, resp), st') \<Rightarrow> (Inr resp, st'))"

definition doRepoRC ::
  "golib \<Rightarrow> 'w transport \<Rightarrow> ociStore \<Rightarrow> string \<Rightarrow> string \<Rightarrow> bytes option \<Rightarrow> header \<Rightarrow> 'w net
     \<Rightarrow> (error + bytes \<times> response) \<times> 'w net" where
  "doRepoRC lib tr s method p body headers st =
     do lib tr method (baseURL s (repoBase s @ p)) body headers st"

definition doRepoBlobRC ::
  "golib \<Rightarrow> 'w transport \<Rightarrow> ociStore \<Rightarrow> string \<Rightarrow> header \<Rightarrow> 'w net \<Rightarrow> (error + bytes) \<times> 'w net" where
  "doRepoBlobRC lib tr s digest headers st =
     (case do lib tr ''GET'' (baseURL s (repoBase s @ ''/blobs/'' @ digest)) None headers st of
        (Inl err, st') \<Rightarrow> (Inl err, st')
      | (Inr (rc, resp), st') \<Rightarrow> (Inr rc, st'))"

definition accept_manifests :: string where
  "accept_manifests =
     ''application/vnd.oci.image.manifest.v1+json, application/vnd.docker.distribution.manifest.v2+json''"

definition headManifestDigest ::
  "golib \<Rightarrow> 'w transport \<Rightarrow> ociStore \<Rightarrow> string \<Rightarrow> 'w net \<Rightarrow> (error + string) \<times> 'w net" where
  "headManifestDigest lib tr s ref st =
     (let h = header_Set [] ''Accept'' accept_manifests in
      case doRepo lib tr s ''HEAD'' (''/manifests/'' @ ref) None h st of
        (Inl err, st') \<Rightarrow> (Inl err, st')
      | (Inr resp, st') \<Rightarrow>
          let d = header_Get (Header resp) ''Docker-Content-Digest'' in
          if d = [] then (Inl (Errorf ''missing Docker-Content-Digest header on HEAD manifest''), st')
          else (Inr d, st'))"

definition parseUploadedSize :: "golib \<Rightarrow> string \<Rightarrow> 64 word" where
  "parseUploadedSize lib rng =
     (if rng = [] then 0
      else
        let parts = strings_Split rng CHR ''-'' in
        if length parts \<noteq> 2 then 0
        else
          let last = (case fmt_Sscanf_d lib (parts ! 1) of None \<Rightarrow> 0 | Some v \<Rightarrow> v)
          in last + 1)"

definition resolveLocation :: "golib \<Rightarrow> ociStore \<Rightarrow> string \<Rightarrow> error + string" where
  "resolveLocation lib s loc =
     (case url_Parse lib (strings_TrimRight (base s) CHR ''/'') of
        Inl err \<Rightarrow> Inl err
      | Inr b \<Rightarrow>
          (case url_Parse lib loc of
             Inl err \<Rightarrow> Inl err
           | Inr ref \<Rightarrow> Inr (url_String lib (url_ResolveReference lib b ref))))"

subsection \<open>Blob upload\<close>

text \<open>The payload reader is its content. The digest is the sum of what the PATCH request
  read through the tee; a PATCH that succeeded has read the payload to its end.\<close>

definition finalize_url :: "string \<Rightarrow> string \<Rightarrow> string" where
  "finalize_url uploadURL digest =
     (if strings_Contains uploadURL ''?'' then uploadURL @ ''&digest='' @ url_QueryEscape digest
      else uploadURL @ ''?digest='' @ url_QueryEscape digest)"

definition uploadBlob ::
  "golib \<Rightarrow> 'w transport \<Rightarrow> ociStore \<Rightarrow> bytes \<Rightarrow> 'w net \<Rightarrow> (error + string \<times> 64 word) \<times> 'w net" where
  "uploadBlob lib tr s rd st =
     (case doRepo lib tr s ''POST'' ''/blobs/uploads/'' None [] st of
        (Inl err, st1) \<Rightarrow> (Inl err, st1)
      | (Inr resp, st1) \<Rightarrow>
          let loc = header_Get (Header resp) ''Location'' in
          if loc = [] then (Inl (Errorf ''registry missing Location on upload start''), st1)
          else
            (case resolveLocation lib s loc of
               Inl err \<Rightarrow> (Inl err, st1)
             | Inr uploadURL \<Rightarrow>
                 let patchHeaders = header_Set [] ''Content-Type'' ''application/octet-stream'' in
                 (case do lib tr ''PATCH'' uploadURL (Some rd) patchHeaders st1 of
                    (Inl err, st2) \<Rightarrow> (Inl err, st2)
                  | (Inr (rc, resp2), st2) \<Rightarrow>
                      let loc2 = header_Get (Header resp2) ''Location'' in
                      (case (if loc2 \<noteq> [] then resolveLocation lib s loc2 else Inr uploadURL) of
                         Inl err \<Rightarrow> (Inl err, st2)
                       | Inr uploadURL' \<Rightarrow>
                           let size' = parseUploadedSize lib (header_Get (Header resp2) ''Range'');
                               digest = ''sha256:'' @ fmt_x (sha256_Sum lib rd);
                               finalURL = finalize_url uploadURL' digest
                           in (case do lib tr ''PUT'' finalURL None [] st2 of
                                 (Inl err, st3) \<Rightarrow> (Inl err, st3)
                               | (Inr (rc3, resp3), st3) \<Rightarrow> (Inr (digest, size'), st3))))))"

subsection \<open>Tag-manifest protocol\<close>

definition putByTag ::
  "golib \<Rightarrow> 'w transport \<Rightarrow> ociStore \<Rightarrow> string \<Rightarrow> bytes \<Rightarrow> 'w net
     \<Rightarrow> (64 word \<times> error option) \<times> 'w net" where
  "putByTag lib tr s tag rd st =
     (case uploadBlob lib tr s rd st of
        (Inl err, st1) \<Rightarrow> ((0, Some err), st1)
      | (Inr (payloadDigest, size'), st1) \<Rightarrow>
          (case uploadBlob lib tr s ''{}'' st1 of
             (Inl err, st2) \<Rightarrow> ((0, Some err), st2)
           | (Inr (cfgDigest, cfgSize), st2) \<Rightarrow>
               let man = \<lparr>SchemaVersion = 2,
                          ManifestMediaType = ''application/vnd.oci.image.manifest.v1+json'',
                          Config = \<lparr>MediaType = ''application/vnd.oci.image.config.v1+json'',
                                    Digest = cfgDigest,
                                    Size = of_nat (length ''{}'')\<rparr>,
                          Layers = [\<lparr>MediaType = ''application/octet-stream'',
                                     Digest = payloadDigest,
                                     Size = size'\<rparr>]\<rparr>
               in (case json_Marshal lib man of
                     Inl err \<Rightarrow> ((- 1, Some err), st2)
                   | Inr body \<Rightarrow>
                       let h = header_Set [] ''Content-Type'' ''application/vnd.oci.image.manifest.v1+json'' in
                       (case doRepo lib tr s ''PUT'' (''/manifests/'' @ tag) (Some body) h st2 of
                          (Inl err, st3) \<Rightarrow> ((size', Some err), st3)
                        | (Inr resp, st3) \<Rightarrow> ((size', None), st3)))))"

definition getByTag ::
  "golib \<Rightarrow> 'w transport \<Rightarrow> ociStore \<Rightarrow> string \<Rightarrow> header \<Rightarrow> 'w net \<Rightarrow> (error + bytes) \<times> 'w net" where
  "getByTag lib tr s tag extraHeaders st =
     (let h = header_Set [] ''Accept'' accept_manifests in
      case doRepoRC lib tr s ''GET'' (''/manifests/'' @ tag) None h st of
        (Inl err, st1) \<Rightarrow> (Inl err, st1)
      | (Inr (manifestRC, resp), st1) \<Rightarrow>
          (case json_Decode_manifest lib manifestRC of
             Inl err \<Rightarrow> (Inl (ErrorfWrap ''decode manifest: '' err), st1)
           | Inr man \<Rightarrow>
               (case Layers man of
                  [] \<Rightarrow> (Inl (Errorf ''manifest has no layers''), st1)
                | layer # rest \<Rightarrow>
                    if Digest layer = [] then (Inl (Errorf ''manifest layer digest missing''), st1)
                    else
                      let h2 = add_all extraHeaders [] in
                      doRepoBlobRC lib tr s (Digest layer) h2 st1)))"

definition deleteByTag ::
  "golib \<Rightarrow> 'w transport \<Rightarrow> ociStore \<Rightarrow> string \<Rightarrow> 'w net \<Rightarrow> error option \<times> 'w net" where
  "deleteByTag lib tr s tag st =
     (case headManifestDigest lib tr s tag st of
        (Inl err, st1) \<Rightarrow> (Some err, st1)
      | (Inr digest, st1) \<Rightarrow>
          (case doRepo lib tr s ''DELETE'' (''/manifests/'' @ digest) None [] st1 of
             (Inl err, st2) \<Rightarrow> (Some err, st2)
           | (Inr resp, st2) \<Rightarrow> (None, st2)))"

subsection \<open>Key-space enumeration\<close>

text \<open>The loop over \<open>tl.Tags\<close>, with the slice \<open>out\<close> it appends to.\<close>

fun collect_tags :: "string \<Rightarrow> string list \<Rightarrow> MAC list \<Rightarrow> MAC list" where
  "collect_tags prefix' [] out = out"
| "collect_tags prefix' (t # ts) out =
     (if strings_HasPrefix t prefix' then
        (case hex_DecodeString (strings_TrimPrefix t prefix') of
           (b, err) \<Rightarrow>
             if err \<noteq> None \<or> length b \<noteq> 32 then collect_tags prefix' ts out
             else collect_tags prefix' ts (out @ [take 32 b]))
      else collect_tags prefix' ts out)"

definition listByPrefix ::
  "golib \<Rightarrow> 'w transport \<Rightarrow> ociStore \<Rightarrow> string \<Rightarrow> 'w net \<Rightarrow> (error + MAC list) \<times> 'w net" where
  "listByPrefix lib tr s prefix' st =
     (case doRepoRC lib tr s ''GET'' ''/tags/list'' None [] st of
        (Inl err, st1) \<Rightarrow> (Inl err, st1)
      | (Inr (rc, resp), st1) \<Rightarrow>
          (case json_Decode_tagsList lib rc of
             Inl err \<Rightarrow> (Inl err, st1)
           | Inr tl' \<Rightarrow> (Inr (collect_tags prefix' (Tags tl') []), st1)))"

subsection \<open>Store operations\<close>

definition Create :: "golib \<Rightarrow> 'w transport \<Rightarrow> ociStore \<Rightarrow> bytes \<Rightarrow> 'w net \<Rightarrow> error option \<times> 'w net" where
  "Create lib tr s config st =
     (case putByTag lib tr s ''CONFIG'' config st of ((n, err), st') \<Rightarrow> (err, st'))"

definition Open :: "golib \<Rightarrow> 'w transport \<Rightarrow> ociStore \<Rightarrow> 'w net \<Rightarrow> (error + bytes) \<times> 'w net" where
  "Open lib tr s st = getByTag lib tr s ''CONFIG'' [] st"

text \<open>The \<open>switch res\<close> of the four operations: the tag prefix of a resource, or none.\<close>

definition List ::
  "golib \<Rightarrow> 'w transport \<Rightarrow> ociStore \<Rightarrow> StorageResource \<Rightarrow> 'w net \<Rightarrow> (error + MAC list) \<times> 'w net" where
  "List lib tr s res st =
     (case (case res of
              StorageResourcePackfile \<Rightarrow> Some ''packfiles-''
            | StorageResourceState \<Rightarrow> Some ''state-''
            | StorageResourceLock \<Rightarrow> Some ''locks-''
            | StorageResourceOther n \<Rightarrow> None) of
        None \<Rightarrow> (Inl ErrUnsupported, st)
      | Some prefix' \<Rightarrow> listByPrefix lib tr s prefix' st)"

definition Put ::
  "golib \<Rightarrow> 'w transport \<Rightarrow> ociStore \<Rightarrow> StorageResource \<Rightarrow> MAC \<Rightarrow> bytes \<Rightarrow> 'w net
     \<Rightarrow> (64 word \<times> error option) \<times> 'w net" where
  "Put lib tr s res mac rd st =
     (case (case res of
              StorageResourcePackfile \<Rightarrow> Some ''packfiles-''
            | StorageResourceState \<Rightarrow> Some ''state-''
            | StorageResourceLock \<Rightarrow> Some ''locks-''
            | StorageResourceOther n \<Rightarrow> None) of
        None \<Rightarrow> ((- 1, Some ErrUnsupported), st)
      | Some prefix' \<Rightarrow> putByTag lib tr s (prefix' @ fmt_x mac) rd st)"

definition Get ::
  "golib \<Rightarrow> 'w transport \<Rightarrow> ociStore \<Rightarrow> StorageResource \<Rightarrow> MAC \<Rightarrow> storage_Range option \<Rightarrow> 'w net
     \<Rightarrow> (error + bytes) \<times> 'w net" where
  "Get lib tr s res mac rg st =
     (case (case res of
              StorageResourcePackfile \<Rightarrow> Some ''packfiles-''
            | StorageResourceState \<Rightarrow> Some ''state-''
            | StorageResourceLock \<Rightarrow> Some ''locks-''
            | StorageResourceOther n \<Rightarrow> None) of
        None \<Rightarrow> (Inl ErrUnsupported, st)
      | Some prefix' \<Rightarrow>
          let h = (case rg of
                     None \<Rightarrow> []
                   | Some r \<Rightarrow>
                       let end = Offset r + ucast (Length r) - 1 in
                       header_Set [] ''Range''
                         (''bytes='' @ fmt_d (unat (Offset r)) @ ''-'' @ fmt_d (unat end)))
          in getByTag lib tr s (prefix' @ fmt_x mac) h st)"

definition Delete ::
  "golib \<Rightarrow> 'w transport \<Rightarrow> ociStore \<Rightarrow> StorageResource \<Rightarrow> MAC \<Rightarrow> 'w net \<Rightarrow> error option \<times> 'w net" where
  "Delete lib tr s res mac st =
     (case (case res of
              StorageResourcePackfile \<Rightarrow> Some ''packfiles-''
            | StorageResourceState \<Rightarrow> Some ''state-''
            | StorageResourceLock \<Rightarrow> Some ''locks-''
            | StorageResourceOther n \<Rightarrow> None) of
        None \<Rightarrow> (Some ErrUnsupported, st)
      | Some prefix' \<Rightarrow> deleteByTag lib tr s (prefix' @ fmt_x mac) st)"

section \<open>Test doubles\<close>

text \<open>
  Concrete values of the parameters, for running the model on concrete inputs. The
  library double handles plain absolute URLs (\<open>scheme://host/path?query\<close>) and
  absolute-path references without escapes or dot segments, on which it agrees with
  \<open>net/url\<close>; its JSON codec carries
  the digest of the first layer only, and its sum is the identity. The scripted transport
  answers the requests from a list of canned responses, in order.
\<close>

fun split_once :: "string \<Rightarrow> string \<Rightarrow> string \<Rightarrow> (string \<times> string) option" where
  "split_once cur sep [] = None"
| "split_once cur sep (c # s) =
     (if strings_HasPrefix (c # s) sep then Some (rev cur, drop (length sep) (c # s))
      else split_once (c # cur) sep s)"

definition plain_url :: URL where
  "plain_url = \<lparr>Scheme = [], Opaque = [], User = None, Host = [], Path = [], RawPath = [],
     OmitHost = False, ForceQuery = False, RawQuery = [], Fragment = [], RawFragment = []\<rparr>"

definition stub_Parse :: "string \<Rightarrow> error + URL" where
  "stub_Parse raw =
     (let (rest, q) = (case split_once [] ''?'' raw of None \<Rightarrow> (raw, []) | Some (a, b) \<Rightarrow> (a, b)) in
      case split_once [] ''://'' rest of
        None \<Rightarrow> Inr (plain_url\<lparr>Path := rest, RawQuery := q\<rparr>)
      | Some (sch, hp) \<Rightarrow>
          (case split_once [] ''/'' hp of
             None \<Rightarrow> Inr (plain_url\<lparr>Scheme := sch, Host := hp, RawQuery := q\<rparr>)
           | Some (h, p) \<Rightarrow>
               Inr (plain_url\<lparr>Scheme := sch, Host := h, Path := CHR ''/'' # p, RawQuery := q\<rparr>)))"

definition stub_String :: "URL \<Rightarrow> string" where
  "stub_String u =
     (if Scheme u = [] then [] else Scheme u @ ''://'' @ Host u) @ Path u
       @ (if RawQuery u = [] then [] else CHR ''?'' # RawQuery u)"

definition stub_Marshal :: "ociManifest \<Rightarrow> error + bytes" where
  "stub_Marshal m = Inr (case Layers m of [] \<Rightarrow> [] | l # ls \<Rightarrow> Digest l)"

definition stub_Decode_manifest :: "bytes \<Rightarrow> error + ociManifest" where
  "stub_Decode_manifest b =
     Inr \<lparr>SchemaVersion = 2, ManifestMediaType = [],
          Config = \<lparr>MediaType = [], Digest = [], Size = 2\<rparr>,
          Layers = [\<lparr>MediaType = [], Digest = b, Size = 0\<rparr>]\<rparr>"

definition stub_Decode_tagsList :: "bytes \<Rightarrow> error + tagsList" where
  "stub_Decode_tagsList b = Inr \<lparr>Name = [], Tags = strings_Split b CHR '',''\<rparr>"

definition stub_lib :: golib where
  "stub_lib = \<lparr>
     sha256_Sum = (\<lambda>b. b),
     url_Parse = stub_Parse,
     url_String = stub_String,
     url_EscapedPath = Path,
     url_resolvePath = (\<lambda>b r. if r = [] then b else r),
     url_unescape = Inr,
     url_escape = (\<lambda>p. p),
     json_Marshal = stub_Marshal,
     json_Decode_manifest = stub_Decode_manifest,
     json_Decode_tagsList = stub_Decode_tagsList,
     fmt_Sscanf_d = (\<lambda>s. None),
     strings_TrimSpace = (\<lambda>s. s)\<rparr>"

definition scripted :: "((error + response) list) transport" where
  "scripted req w = (case w of [] \<Rightarrow> (Inl (ErrExternal ''no response''), []) | r # rs \<Rightarrow> (r, rs))"

definition reply :: "int \<Rightarrow> header \<Rightarrow> bytes \<Rightarrow> error + response" where
  "reply code h b = Inr \<lparr>StatusCode = code, Status = [], Header = h, Body = b\<rparr>"

definition demo_store :: ociStore where
  "demo_store = \<lparr>client = \<lparr>Transport = \<lparr>TLSClientConfig = \<lparr>InsecureSkipVerify = True\<rparr>\<rparr>, Timeout = 0\<rparr>,
                  base = ''http://r'', repo = ''demo''\<rparr>"

section \<open>Vocabulary of the properties\<close>

text \<open>Listing, in the words of the specification: a tag is accepted when it starts
  with the prefix and the rest, hex-decoded, gives no error and exactly 32 bytes; its key
  is the decoded rest.\<close>

definition accepted_tag :: "string \<Rightarrow> string \<Rightarrow> bool" where
  "accepted_tag prefix' t =
     (strings_HasPrefix t prefix'
      \<and> snd (hex_DecodeString (drop (length prefix') t)) = None
      \<and> length (fst (hex_DecodeString (drop (length prefix') t))) = 32)"

definition key_of_tag :: "string \<Rightarrow> string \<Rightarrow> MAC" where
  "key_of_tag prefix' t = fst (hex_DecodeString (drop (length prefix') t))"

text \<open>A transport answers a request with a response of status 200..299.\<close>

definition answers :: "'w transport \<Rightarrow> 'w net \<Rightarrow> request \<Rightarrow> response \<Rightarrow> 'w net \<Rightarrow> bool" where
  "answers tr st req resp st' =
     (tr req (world st) = (Inr resp, world st') \<and> 200 \<le> StatusCode resp \<and> StatusCode resp < 300
      \<and> sent st' = sent st @ [req])"

text \<open>The first two steps of an upload have succeeded: the upload of \<open>rd\<close> from state
  \<open>st\<close> has opened a session, resolved its location to \<open>u\<close> and streamed the payload
  there; the answer to the PATCH is \<open>resp2\<close>, the state after it \<open>st2\<close>.\<close>

definition upload_streamed ::
  "golib \<Rightarrow> 'w transport \<Rightarrow> ociStore \<Rightarrow> bytes \<Rightarrow> 'w net \<Rightarrow> string \<Rightarrow> response \<Rightarrow> 'w net \<Rightarrow> bool" where
  "upload_streamed lib tr s rd st u resp2 st2 =
     (\<exists>resp st1.
        answers tr st \<lparr>rq_Method = ''POST'', rq_URL = baseURL s (repoBase s @ ''/blobs/uploads/''),
                        rq_Body = None, rq_Header = []\<rparr> resp st1
        \<and> header_Get (Header resp) ''Location'' \<noteq> []
        \<and> resolveLocation lib s (header_Get (Header resp) ''Location'') = Inr u
        \<and> answers tr st1 \<lparr>rq_Method = ''PATCH'', rq_URL = u, rq_Body = Some rd,
                           rq_Header = [(''Content-Type'', [''application/octet-stream''])]\<rparr> resp2 st2)"

text \<open>The session location after the PATCH: the resolved \<open>Location\<close> of its answer when
  there is one, the location before it otherwise.\<close>

definition latest_location :: "golib \<Rightarrow> ociStore \<Rightarrow> string \<Rightarrow> response \<Rightarrow> error + string" where
  "latest_location lib s u resp2 =
     (if header_Get (Header resp2) ''Location'' \<noteq> []
      then resolveLocation lib s (header_Get (Header resp2) ''Location'')
      else Inr u)"

text \<open>\<open>url.QueryUnescape\<close>: the inverse of \<open>url.QueryEscape\<close>, \<open>None\<close> on a malformed escape.\<close>

fun url_QueryUnescape :: "string \<Rightarrow> string option" where
  "url_QueryUnescape [] = Some []"
| "url_QueryUnescape (c # s) =
     (if c = CHR ''%'' then
        (case s of
           a # b # s' \<Rightarrow>
             (case (fromHexChar a, fromHexChar b, url_QueryUnescape s') of
                (Some x, Some y, Some r) \<Rightarrow> Some (char_of (16 * x + y) # r)
              | _ \<Rightarrow> None)
         | _ \<Rightarrow> None)
      else if c = CHR ''+'' then map_option ((#) CHR '' '') (url_QueryUnescape s)
      else map_option ((#) c) (url_QueryUnescape s))"





section \<open>An idealised registry\<close>

text \<open>
  A registry that stores blobs and manifests faithfully, as a transport for the store
  \<open>s\<close>. Its state: the upload sessions (the session URL and the bytes received, the
  newest first), the blobs by digest, the manifests by tag, and the number of the next
  session. It answers
  \<^item> \<open>POST /v2/<repo>/blobs/uploads/\<close> by opening a session and giving its path as
    \<open>Location\<close>;
  \<^item> \<open>PATCH <session URL>\<close> by appending the body to what the session has received;
  \<^item> \<open>PUT /v2/<repo>/manifests/<tag>\<close> by storing the body under the tag;
  \<^item> \<open>PUT <session URL>?digest=<d>\<close> (or \<open>&digest=<d>\<close>) by storing what the session has
    received under the unescaped digest;
  \<^item> \<open>GET /v2/<repo>/manifests/<tag>\<close> and \<open>GET /v2/<repo>/blobs/<digest>\<close> by the body
    stored, or 404.
\<close>

record registry =
  reg_sessions :: "(string \<times> bytes) list"
  reg_blobs :: "string \<rightharpoonup> bytes"
  reg_manifests :: "string \<rightharpoonup> bytes"
  reg_next :: nat

definition session_path :: "ociStore \<Rightarrow> nat \<Rightarrow> string" where
  "session_path s n = ''/v2/'' @ repo s @ ''/blobs/uploads/'' @ fmt_d n"

fun find_session :: "string \<Rightarrow> (string \<times> bytes) list \<Rightarrow> (string \<times> bytes) option" where
  "find_session u [] = None"
| "find_session u ((k, d) # ss) =
     (if strings_HasPrefix u (k @ ''?digest='') \<or> strings_HasPrefix u (k @ ''&digest='')
      then Some (k, d) else find_session u ss)"

definition registry_serve :: "ociStore \<Rightarrow> registry transport" where
  "registry_serve s req w =
     (let m = rq_Method req; u = rq_URL req;
          uploads = baseURL s (repoBase s @ ''/blobs/uploads/'');
          manifests = baseURL s (repoBase s @ ''/manifests/'');
          blobs = baseURL s (repoBase s @ ''/blobs/'')
      in
      if m = ''POST'' \<and> u = uploads then
        (reply 202 [(''Location'', [session_path s (reg_next w)])] [],
         w\<lparr>reg_sessions := (base s @ session_path s (reg_next w), []) # reg_sessions w,
           reg_next := Suc (reg_next w)\<rparr>)
      else if m = ''PATCH'' then
        (case map_of (reg_sessions w) u of
           None \<Rightarrow> (reply 404 [] [], w)
         | Some d \<Rightarrow>
             (reply 202 [] [],
              w\<lparr>reg_sessions := (u, d @ (case rq_Body req of None \<Rightarrow> [] | Some b \<Rightarrow> b))
                                    # reg_sessions w\<rparr>))
      else if m = ''PUT'' \<and> strings_HasPrefix u manifests then
        (case rq_Body req of
           None \<Rightarrow> (reply 400 [] [], w)
         | Some b \<Rightarrow>
             (reply 201 [] [],
              w\<lparr>reg_manifests := (reg_manifests w)(drop (length manifests) u \<mapsto> b)\<rparr>))
      else if m = ''PUT'' then
        (case find_session u (reg_sessions w) of
           None \<Rightarrow> (reply 404 [] [], w)
         | Some (k, d) \<Rightarrow>
             (case url_QueryUnescape (drop (length k + 8) u) of
                None \<Rightarrow> (reply 400 [] [], w)
              | Some dg \<Rightarrow> (reply 201 [] [], w\<lparr>reg_blobs := (reg_blobs w)(dg \<mapsto> d)\<rparr>)))
      else if m = ''GET'' \<and> strings_HasPrefix u manifests then
        (case reg_manifests w (drop (length manifests) u) of
           None \<Rightarrow> (reply 404 [] [], w)
         | Some b \<Rightarrow> (reply 200 [] b, w))
      else if m = ''GET'' \<and> strings_HasPrefix u blobs then
        (case reg_blobs w (drop (length blobs) u) of
           None \<Rightarrow> (reply 404 [] [], w)
         | Some b \<Rightarrow> (reply 200 [] b, w))
      else (reply 404 [] [], w))"

section \<open>Running the model\<close>

text \<open>The equations that run the model on a concrete input.\<close>

lemmas run_simps =
  Let_def List_def Put_def Get_def Delete_def Create_def Open_def
  putByTag_def getByTag_def deleteByTag_def listByPrefix_def uploadBlob_def
  headManifestDigest_def parseUploadedSize_def resolveLocation_def finalize_url_def
  doRepo_def doRepoRC_def doRepoBlobRC_def do_def baseURL_def repoBase_def accept_manifests_def
  add_all_def header_Get_def header_values_def header_Set_def header_Add_def
  strings_HasPrefix_def strings_TrimPrefix_def strings_TrimRight_def strings_Trim_def strings_Split_def
  digit_char_def fmt_x_def hex_digit_def upper_hex_digit_def
  fromHexChar_def char_of_def bit_iff_odd
  url_QueryEscape_def escape_byte_def unreserved_def
  scripted_def reply_def demo_store_def stub_lib_def
  stub_Parse_def stub_String_def url_ResolveReference_def url_setPath_def plain_url_def
  stub_Marshal_def stub_Decode_manifest_def stub_Decode_tagsList_def

section \<open>Properties\<close>

subsection \<open>Headers and the request log\<close>

lemma add_all_single: "add_all [(k, [v])] [] = [(k, [v])]"
  by (simp add: add_all_def header_Add_def header_values_def)

lemma add_all_Nil: "add_all [] h = h"
  by (simp add: add_all_def)

lemma header_Set_Nil: "header_Set [] k v = [(k, [v])]"
  by (simp add: header_Set_def)

lemma do_sent:
  "do lib tr m u b h st = (r, st') \<Longrightarrow>
     sent st' = sent st @ [\<lparr>rq_Method = m, rq_URL = u, rq_Body = b, rq_Header = add_all h []\<rparr>]"
  by (auto simp: do_def Let_def split: prod.splits sum.splits if_splits)

lemma doRepoBlobRC_sent:
  "doRepoBlobRC lib tr s d h st = (r, st') \<Longrightarrow>
     sent st' = sent st @ [\<lparr>rq_Method = ''GET'', rq_URL = baseURL s (repoBase s @ ''/blobs/'' @ d),
                            rq_Body = None, rq_Header = add_all h []\<rparr>]"
  by (auto simp: doRepoBlobRC_def split: prod.splits sum.splits dest: do_sent)

lemma getByTag_sent:
  assumes "getByTag lib tr s tag h st = (r, st')"
  shows "(\<exists>e. r = Inl e) \<and>
           sent st' = sent st @ [\<lparr>rq_Method = ''GET'', rq_URL = baseURL s (repoBase s @ ''/manifests/'' @ tag),
                                  rq_Body = None, rq_Header = [(''Accept'', [accept_manifests])]\<rparr>]
       \<or> (\<exists>d. sent st' = sent st @ [\<lparr>rq_Method = ''GET'', rq_URL = baseURL s (repoBase s @ ''/manifests/'' @ tag),
                                  rq_Body = None, rq_Header = [(''Accept'', [accept_manifests])]\<rparr>,
                                \<lparr>rq_Method = ''GET'', rq_URL = baseURL s (repoBase s @ ''/blobs/'' @ d),
                                  rq_Body = None, rq_Header = add_all (add_all h []) []\<rparr>])"
  using assms
  by (auto simp: getByTag_def doRepoRC_def Let_def header_Set_Nil add_all_single
       split: prod.splits sum.splits list.splits if_splits dest!: do_sent doRepoBlobRC_sent)

lemma Get_sent:
  assumes "res = StorageResourcePackfile \<or> res = StorageResourceState \<or> res = StorageResourceLock"
    and "Get lib tr s res mac (Some rg) st = (r, st')"
  shows "\<exists>tag. (\<exists>e. r = Inl e) \<and>
           sent st' = sent st @ [\<lparr>rq_Method = ''GET'', rq_URL = baseURL s (repoBase s @ ''/manifests/'' @ tag),
                                  rq_Body = None, rq_Header = [(''Accept'', [accept_manifests])]\<rparr>]
       \<or> (\<exists>d. sent st' = sent st @ [\<lparr>rq_Method = ''GET'', rq_URL = baseURL s (repoBase s @ ''/manifests/'' @ tag),
                                  rq_Body = None, rq_Header = [(''Accept'', [accept_manifests])]\<rparr>,
                                \<lparr>rq_Method = ''GET'', rq_URL = baseURL s (repoBase s @ ''/blobs/'' @ d),
                                  rq_Body = None,
                                  rq_Header = [(''Range'', [''bytes='' @ fmt_d (unat (Offset rg)) @ ''-''
                                                 @ fmt_d (unat (Offset rg + ucast (Length rg) - 1))])]\<rparr>])"
proof -
  let ?h = "[(''Range'', [''bytes='' @ fmt_d (unat (Offset rg)) @ ''-''
                            @ fmt_d (unat (Offset rg + ucast (Length rg) - 1))])]"
  obtain tag where "getByTag lib tr s tag ?h st = (r, st')"
    using assms by (auto simp: Get_def Let_def header_Set_Nil)
  from getByTag_sent[OF this] show ?thesis
    by (simp only: add_all_single) blast
qed

subsection \<open>Arithmetic of the range end\<close>

lemma ucast_32_64: "unat (ucast (len :: 32 word) :: 64 word) = unat len"
  by (simp add: unsigned_ucast_eq take_bit_nat_eq_self_iff order_less_trans[OF unsigned_less])

lemma range_end_wrap:
  fixes off :: "64 word" and len :: "32 word"
  shows "unat (off + ucast len - 1) = (unat off + unat len + (2 ^ 64 - 1)) mod 2 ^ 64"
proof -
  have "off + ucast len - 1 = off + ucast len + (- 1)" by simp
  also have "unat \<dots> = (unat (off + ucast len) + unat (- 1 :: 64 word)) mod 2 ^ 64"
    by (simp only: unat_word_ariths) simp
  also have "\<dots> = ((unat off + unat len) mod 2 ^ 64 + (2 ^ 64 - 1)) mod 2 ^ 64"
  proof -
    have m: "unat (- 1 :: 64 word) = 2 ^ 64 - 1"
      by (simp add: unsigned_minus_1_eq_mask mask_eq_exp_minus_1)
    show ?thesis by (simp only: m unat_word_ariths ucast_32_64) simp
  qed
  also have "\<dots> = (unat off + unat len + (2 ^ 64 - 1)) mod 2 ^ 64"
    by (simp add: mod_add_left_eq)
  finally show ?thesis .
qed

lemma range_end_no_wrap:
  fixes off :: "64 word" and len :: "32 word"
  assumes "0 < unat off + unat len" "unat off + unat len \<le> 2 ^ 64"
  shows "unat (off + ucast len - 1) = unat off + unat len - 1"
proof -
  have "unat off + unat len + (2 ^ 64 - 1) = (unat off + unat len - 1) + 1 * 2 ^ 64"
    using assms by simp
  then have "(unat off + unat len + (2 ^ 64 - 1)) mod 2 ^ 64 = (unat off + unat len - 1) mod 2 ^ 64"
    by (metis mod_mult_self1)
  also have "\<dots> = unat off + unat len - 1"
    using assms by simp
  finally show ?thesis by (simp add: range_end_wrap)
qed

subsection \<open>The dispatcher\<close>

text \<open>
  Claim C5. For every resource category other than packfile, state and lock, each of
  \<open>List\<close>, \<open>Put\<close>, \<open>Get\<close> and \<open>Delete\<close> returns \<open>errors.ErrUnsupported\<close> at once: the world
  and the list of requests handed to the transport are what they were, so no network
  call was made.
\<close>

theorem unsupported_category_no_network:
  assumes "res \<noteq> StorageResourcePackfile" "res \<noteq> StorageResourceState" "res \<noteq> StorageResourceLock"
  shows "List lib tr s res st = (Inl ErrUnsupported, st)
       \<and> Put lib tr s res mac rd st = ((- 1, Some ErrUnsupported), st)
       \<and> Get lib tr s res mac rg st = (Inl ErrUnsupported, st)
       \<and> Delete lib tr s res mac st = (Some ErrUnsupported, st)"
  using assms by (cases res) (simp_all add: List_def Put_def Get_def Delete_def)

theorem unsupported_category_no_network_witness:
  "StorageResourceOther 7 \<noteq> StorageResourcePackfile
   \<and> StorageResourceOther 7 \<noteq> StorageResourceState
   \<and> StorageResourceOther 7 \<noteq> StorageResourceLock
   \<and> List stub_lib scripted demo_store (StorageResourceOther 7) \<lparr>world = [], sent = []\<rparr>
        = (Inl ErrUnsupported, \<lparr>world = [], sent = []\<rparr>)
   \<and> Put stub_lib scripted demo_store (StorageResourceOther 7) ''k'' ''abc'' \<lparr>world = [], sent = []\<rparr>
        = ((- 1, Some ErrUnsupported), \<lparr>world = [], sent = []\<rparr>)
   \<and> Get stub_lib scripted demo_store (StorageResourceOther 7) ''k'' None \<lparr>world = [], sent = []\<rparr>
        = (Inl ErrUnsupported, \<lparr>world = [], sent = []\<rparr>)
   \<and> Delete stub_lib scripted demo_store (StorageResourceOther 7) ''k'' \<lparr>world = [], sent = []\<rparr>
        = (Some ErrUnsupported, \<lparr>world = [], sent = []\<rparr>)"
  using unsupported_category_no_network [of "StorageResourceOther 7" stub_lib scripted demo_store
          "\<lparr>world = [], sent = []\<rparr>" "''k''" "''abc''" None]
  by simp

text \<open>
  Claim C9, as stated, fails. It gives the end of the range as the number
  \<open>offset + length - 1\<close> for every range. The code computes it in \<open>uint64\<close>. At offset
  \<open>2^64 - 1\<close> and length 2 the number is \<open>2^64\<close> and the header sent ends in \<open>-0\<close>; at
  offset 0 and length 0 the number is \<open>-1\<close> and the header sent ends in \<open>2^64 - 1\<close>.
\<close>

theorem get_range_header_counterexample:
  "sent (snd (Get stub_lib scripted demo_store StorageResourceLock ''0123456789abcdef0123456789abcdef''
                (Some \<lparr>Offset = 18446744073709551615, Length = 2\<rparr>)
                \<lparr>world = [reply 200 [] ''sha256:616263'', reply 206 [] ''c''], sent = []\<rparr>))
     = [\<lparr>rq_Method = ''GET'',
         rq_URL = ''http://r/v2/demo/manifests/locks-3031323334353637383961626364656630313233343536373839616263646566'',
         rq_Body = None, rq_Header = [(''Accept'', [accept_manifests])]\<rparr>,
        \<lparr>rq_Method = ''GET'', rq_URL = ''http://r/v2/demo/blobs/sha256:616263'',
         rq_Body = None, rq_Header = [(''Range'', [''bytes=18446744073709551615-0''])]\<rparr>]
   \<and> ''bytes='' @ fmt_d (unat (18446744073709551615 :: 64 word)) @ ''-''
         @ fmt_d (unat (18446744073709551615 :: 64 word) + unat (2 :: 32 word) - 1)
       = ''bytes=18446744073709551615-18446744073709551616''
   \<and> ''bytes=18446744073709551615-0'' \<noteq> ''bytes=18446744073709551615-18446744073709551616''
   \<and> sent (snd (Get stub_lib scripted demo_store StorageResourceLock ''0123456789abcdef0123456789abcdef''
                (Some \<lparr>Offset = 0, Length = 0\<rparr>)
                \<lparr>world = [reply 200 [] ''sha256:616263'', reply 200 [] ''abc''], sent = []\<rparr>))
     = [\<lparr>rq_Method = ''GET'',
         rq_URL = ''http://r/v2/demo/manifests/locks-3031323334353637383961626364656630313233343536373839616263646566'',
         rq_Body = None, rq_Header = [(''Accept'', [accept_manifests])]\<rparr>,
        \<lparr>rq_Method = ''GET'', rq_URL = ''http://r/v2/demo/blobs/sha256:616263'',
         rq_Body = None, rq_Header = [(''Range'', [''bytes=0-18446744073709551615''])]\<rparr>]
   \<and> int (unat (0 :: 64 word)) + int (unat (0 :: 32 word)) - 1 = - 1"
proof -
  have f: "fmt_d 0 = ''0''" "fmt_d 18446744073709551615 = ''18446744073709551615''"
    "fmt_d 18446744073709551616 = ''18446744073709551616''"
    by (simp_all add: fmt_d.simps digit_char_def)
  have e: "unat (- 1 :: 64 word) = 18446744073709551615"
    by (simp add: unsigned_minus_1_eq_mask mask_eq_exp_minus_1)
  have h: "unat ((18446744073709551615 :: 64 word) + ucast (2 :: 32 word) - 1) = 0"
    by simp
  have u: "unat (18446744073709551615 :: 64 word) = 18446744073709551615"
    by simp
  have 1: "sent (snd (Get stub_lib scripted demo_store StorageResourceLock ''0123456789abcdef0123456789abcdef''
                (Some \<lparr>Offset = 18446744073709551615, Length = 2\<rparr>)
                \<lparr>world = [reply 200 [] ''sha256:616263'', reply 206 [] ''c''], sent = []\<rparr>))
     = [\<lparr>rq_Method = ''GET'',
         rq_URL = ''http://r/v2/demo/manifests/locks-3031323334353637383961626364656630313233343536373839616263646566'',
         rq_Body = None, rq_Header = [(''Accept'', [accept_manifests])]\<rparr>,
        \<lparr>rq_Method = ''GET'', rq_URL = ''http://r/v2/demo/blobs/sha256:616263'',
         rq_Body = None, rq_Header = [(''Range'', [''bytes=18446744073709551615-0''])]\<rparr>]"
    unfolding Get_def by (simp add: Let_def h u f header_Set_Nil)
       (simp add: run_simps)
  have 2: "''bytes='' @ fmt_d (unat (18446744073709551615 :: 64 word)) @ ''-''
         @ fmt_d (unat (18446744073709551615 :: 64 word) + unat (2 :: 32 word) - 1)
       = ''bytes=18446744073709551615-18446744073709551616''"
    by (simp add: f)
  have 3: "sent (snd (Get stub_lib scripted demo_store StorageResourceLock ''0123456789abcdef0123456789abcdef''
                (Some \<lparr>Offset = 0, Length = 0\<rparr>)
                \<lparr>world = [reply 200 [] ''sha256:616263'', reply 200 [] ''abc''], sent = []\<rparr>))
     = [\<lparr>rq_Method = ''GET'',
         rq_URL = ''http://r/v2/demo/manifests/locks-3031323334353637383961626364656630313233343536373839616263646566'',
         rq_Body = None, rq_Header = [(''Accept'', [accept_manifests])]\<rparr>,
        \<lparr>rq_Method = ''GET'', rq_URL = ''http://r/v2/demo/blobs/sha256:616263'',
         rq_Body = None, rq_Header = [(''Range'', [''bytes=0-18446744073709551615''])]\<rparr>]"
    by (simp add: run_simps f e)
  show ?thesis
    using 1 2 3 by simp
qed

text \<open>
  Claim C9, amended. For a range with \<open>1 \<le> offset + length \<le> 2^64\<close>, a \<open>Get\<close> of a
  supported category sends the manifest request and then, unless it has failed by then, one
  blob request, whose headers are exactly \<open>Range: bytes=<offset>-<offset+length-1>\<close>.
\<close>

theorem get_range_header_in_range:
  assumes "res = StorageResourcePackfile \<or> res = StorageResourceState \<or> res = StorageResourceLock"
    and "0 < unat (Offset rg) + unat (Length rg)"
    and "unat (Offset rg) + unat (Length rg) \<le> 2 ^ 64"
  shows "\<exists>tag.
           (\<exists>e. fst (Get lib tr s res mac (Some rg) st) = Inl e) \<and>
             sent (snd (Get lib tr s res mac (Some rg) st))
               = sent st @ [\<lparr>rq_Method = ''GET'', rq_URL = baseURL s (repoBase s @ ''/manifests/'' @ tag),
                              rq_Body = None, rq_Header = [(''Accept'', [accept_manifests])]\<rparr>]
         \<or> (\<exists>d. sent (snd (Get lib tr s res mac (Some rg) st))
               = sent st @ [\<lparr>rq_Method = ''GET'', rq_URL = baseURL s (repoBase s @ ''/manifests/'' @ tag),
                              rq_Body = None, rq_Header = [(''Accept'', [accept_manifests])]\<rparr>,
                            \<lparr>rq_Method = ''GET'', rq_URL = baseURL s (repoBase s @ ''/blobs/'' @ d),
                              rq_Body = None,
                              rq_Header = [(''Range'', [''bytes='' @ fmt_d (unat (Offset rg)) @ ''-''
                                             @ fmt_d (unat (Offset rg) + unat (Length rg) - 1)])]\<rparr>])"
proof -
  obtain r st' where g: "Get lib tr s res mac (Some rg) st = (r, st')"
    by (cases "Get lib tr s res mac (Some rg) st")
  from Get_sent [OF assms(1) g] g show ?thesis
    by (simp add: range_end_no_wrap [OF assms(2,3)])
qed

theorem get_range_header_in_range_witness:
  "(StorageResourcePackfile = StorageResourcePackfile \<or> StorageResourcePackfile = StorageResourceState
      \<or> StorageResourcePackfile = StorageResourceLock)
   \<and> 0 < unat (Offset \<lparr>Offset = 1, Length = 2\<rparr>) + unat (Length \<lparr>Offset = 1, Length = 2\<rparr>)
   \<and> unat (Offset \<lparr>Offset = 1, Length = 2\<rparr>) + unat (Length \<lparr>Offset = 1, Length = 2\<rparr>) \<le> 2 ^ 64
   \<and> (\<exists>tag.
         (\<exists>e. fst (Get stub_lib scripted demo_store StorageResourcePackfile ''0123456789abcdef0123456789abcdef''
                     (Some \<lparr>Offset = 1, Length = 2\<rparr>)
                     \<lparr>world = [reply 200 [] ''sha256:616263'', reply 206 [] ''bc''], sent = []\<rparr>) = Inl e) \<and>
           sent (snd (Get stub_lib scripted demo_store StorageResourcePackfile ''0123456789abcdef0123456789abcdef''
                     (Some \<lparr>Offset = 1, Length = 2\<rparr>)
                     \<lparr>world = [reply 200 [] ''sha256:616263'', reply 206 [] ''bc''], sent = []\<rparr>))
             = sent \<lparr>world = [reply 200 [] ''sha256:616263'', reply 206 [] ''bc''], sent = []\<rparr>
                 @ [\<lparr>rq_Method = ''GET'', rq_URL = baseURL demo_store (repoBase demo_store @ ''/manifests/'' @ tag),
                      rq_Body = None, rq_Header = [(''Accept'', [accept_manifests])]\<rparr>]
       \<or> (\<exists>d. sent (snd (Get stub_lib scripted demo_store StorageResourcePackfile ''0123456789abcdef0123456789abcdef''
                     (Some \<lparr>Offset = 1, Length = 2\<rparr>)
                     \<lparr>world = [reply 200 [] ''sha256:616263'', reply 206 [] ''bc''], sent = []\<rparr>))
             = sent \<lparr>world = [reply 200 [] ''sha256:616263'', reply 206 [] ''bc''], sent = []\<rparr>
                 @ [\<lparr>rq_Method = ''GET'', rq_URL = baseURL demo_store (repoBase demo_store @ ''/manifests/'' @ tag),
                      rq_Body = None, rq_Header = [(''Accept'', [accept_manifests])]\<rparr>,
                    \<lparr>rq_Method = ''GET'', rq_URL = baseURL demo_store (repoBase demo_store @ ''/blobs/'' @ d),
                      rq_Body = None,
                      rq_Header = [(''Range'', [''bytes='' @ fmt_d (unat (Offset \<lparr>Offset = 1, Length = 2\<rparr>)) @ ''-''
                                     @ fmt_d (unat (Offset \<lparr>Offset = 1, Length = 2\<rparr>)
                                              + unat (Length \<lparr>Offset = 1, Length = 2\<rparr>) - 1)])]\<rparr>]))
   \<and> sent (snd (Get stub_lib scripted demo_store StorageResourcePackfile ''0123456789abcdef0123456789abcdef''
                  (Some \<lparr>Offset = 1, Length = 2\<rparr>)
                  \<lparr>world = [reply 200 [] ''sha256:616263'', reply 206 [] ''bc''], sent = []\<rparr>))
       = [\<lparr>rq_Method = ''GET'',
           rq_URL = ''http://r/v2/demo/manifests/packfiles-3031323334353637383961626364656630313233343536373839616263646566'',
           rq_Body = None, rq_Header = [(''Accept'', [accept_manifests])]\<rparr>,
          \<lparr>rq_Method = ''GET'', rq_URL = ''http://r/v2/demo/blobs/sha256:616263'',
           rq_Body = None, rq_Header = [(''Range'', [''bytes=1-2''])]\<rparr>]"
proof (intro conjI)
  show sup: "StorageResourcePackfile = StorageResourcePackfile \<or> StorageResourcePackfile = StorageResourceState
      \<or> StorageResourcePackfile = StorageResourceLock"
    by simp
  show a: "0 < unat (Offset \<lparr>Offset = 1, Length = 2\<rparr>) + unat (Length \<lparr>Offset = 1, Length = 2\<rparr>)"
    by simp
  show b: "unat (Offset \<lparr>Offset = 1, Length = 2\<rparr>) + unat (Length \<lparr>Offset = 1, Length = 2\<rparr>) \<le> 2 ^ 64"
    by simp
  show "\<exists>tag.
         (\<exists>e. fst (Get stub_lib scripted demo_store StorageResourcePackfile ''0123456789abcdef0123456789abcdef''
                     (Some \<lparr>Offset = 1, Length = 2\<rparr>)
                     \<lparr>world = [reply 200 [] ''sha256:616263'', reply 206 [] ''bc''], sent = []\<rparr>) = Inl e) \<and>
           sent (snd (Get stub_lib scripted demo_store StorageResourcePackfile ''0123456789abcdef0123456789abcdef''
                     (Some \<lparr>Offset = 1, Length = 2\<rparr>)
                     \<lparr>world = [reply 200 [] ''sha256:616263'', reply 206 [] ''bc''], sent = []\<rparr>))
             = sent \<lparr>world = [reply 200 [] ''sha256:616263'', reply 206 [] ''bc''], sent = []\<rparr>
                 @ [\<lparr>rq_Method = ''GET'', rq_URL = baseURL demo_store (repoBase demo_store @ ''/manifests/'' @ tag),
                      rq_Body = None, rq_Header = [(''Accept'', [accept_manifests])]\<rparr>]
       \<or> (\<exists>d. sent (snd (Get stub_lib scripted demo_store StorageResourcePackfile ''0123456789abcdef0123456789abcdef''
                     (Some \<lparr>Offset = 1, Length = 2\<rparr>)
                     \<lparr>world = [reply 200 [] ''sha256:616263'', reply 206 [] ''bc''], sent = []\<rparr>))
             = sent \<lparr>world = [reply 200 [] ''sha256:616263'', reply 206 [] ''bc''], sent = []\<rparr>
                 @ [\<lparr>rq_Method = ''GET'', rq_URL = baseURL demo_store (repoBase demo_store @ ''/manifests/'' @ tag),
                      rq_Body = None, rq_Header = [(''Accept'', [accept_manifests])]\<rparr>,
                    \<lparr>rq_Method = ''GET'', rq_URL = baseURL demo_store (repoBase demo_store @ ''/blobs/'' @ d),
                      rq_Body = None,
                      rq_Header = [(''Range'', [''bytes='' @ fmt_d (unat (Offset \<lparr>Offset = 1, Length = 2\<rparr>)) @ ''-''
                                     @ fmt_d (unat (Offset \<lparr>Offset = 1, Length = 2\<rparr>)
                                              + unat (Length \<lparr>Offset = 1, Length = 2\<rparr>) - 1)])]\<rparr>])"
    by (rule get_range_header_in_range [OF sup a b])
  have f: "fmt_d (Suc 0) = ''1''" "fmt_d 2 = ''2''"
    by (simp_all add: fmt_d.simps digit_char_def)
  show "sent (snd (Get stub_lib scripted demo_store StorageResourcePackfile ''0123456789abcdef0123456789abcdef''
                  (Some \<lparr>Offset = 1, Length = 2\<rparr>)
                  \<lparr>world = [reply 200 [] ''sha256:616263'', reply 206 [] ''bc''], sent = []\<rparr>))
       = [\<lparr>rq_Method = ''GET'',
           rq_URL = ''http://r/v2/demo/manifests/packfiles-3031323334353637383961626364656630313233343536373839616263646566'',
           rq_Body = None, rq_Header = [(''Accept'', [accept_manifests])]\<rparr>,
          \<lparr>rq_Method = ''GET'', rq_URL = ''http://r/v2/demo/blobs/sha256:616263'',
           rq_Body = None, rq_Header = [(''Range'', [''bytes=1-2''])]\<rparr>]"
    by (simp add: run_simps f)
qed

text \<open>
  Claim C10. The end of the range is computed in \<open>uint64\<close> and wraps modulo \<open>2^64\<close>. For
  a range of length 0 at offset 0 the blob request of \<open>Get\<close> carries
  \<open>Range: bytes=0-18446744073709551615\<close>.
\<close>

theorem get_zero_length_range_wraps:
  assumes "res = StorageResourcePackfile \<or> res = StorageResourceState \<or> res = StorageResourceLock"
  shows "unat (Offset rg + ucast (Length rg) - 1)
           = (unat (Offset rg) + unat (Length rg) + (2 ^ 64 - 1)) mod 2 ^ 64
       \<and> (\<exists>tag.
           (\<exists>e. fst (Get lib tr s res mac (Some \<lparr>Offset = 0, Length = 0\<rparr>) st) = Inl e) \<and>
             sent (snd (Get lib tr s res mac (Some \<lparr>Offset = 0, Length = 0\<rparr>) st))
               = sent st @ [\<lparr>rq_Method = ''GET'', rq_URL = baseURL s (repoBase s @ ''/manifests/'' @ tag),
                              rq_Body = None, rq_Header = [(''Accept'', [accept_manifests])]\<rparr>]
         \<or> (\<exists>d. sent (snd (Get lib tr s res mac (Some \<lparr>Offset = 0, Length = 0\<rparr>) st))
               = sent st @ [\<lparr>rq_Method = ''GET'', rq_URL = baseURL s (repoBase s @ ''/manifests/'' @ tag),
                              rq_Body = None, rq_Header = [(''Accept'', [accept_manifests])]\<rparr>,
                            \<lparr>rq_Method = ''GET'', rq_URL = baseURL s (repoBase s @ ''/blobs/'' @ d),
                              rq_Body = None,
                              rq_Header = [(''Range'', [''bytes=0-18446744073709551615''])]\<rparr>]))"
proof -
  have d0: "fmt_d 0 = ''0''"
    by (simp add: fmt_d.simps digit_char_def)
  have e: "unat (- 1 :: 64 word) = 18446744073709551615"
    by (simp add: unsigned_minus_1_eq_mask mask_eq_exp_minus_1)
  have dmax: "fmt_d 18446744073709551615 = ''18446744073709551615''"
    by (simp add: fmt_d.simps digit_char_def)
  obtain r st' where g: "Get lib tr s res mac (Some \<lparr>Offset = 0, Length = 0\<rparr>) st = (r, st')"
    by (cases "Get lib tr s res mac (Some \<lparr>Offset = 0, Length = 0\<rparr>) st")
  from Get_sent[OF assms g] g show ?thesis
    by (simp add: range_end_wrap d0 e dmax)
qed

theorem get_zero_length_range_wraps_witness:
  "(StorageResourceState = StorageResourcePackfile \<or> StorageResourceState = StorageResourceState
      \<or> StorageResourceState = StorageResourceLock)
   \<and> unat (Offset \<lparr>Offset = 0, Length = 0\<rparr> + ucast (Length \<lparr>Offset = 0, Length = 0\<rparr>) - 1)
       = 18446744073709551615
   \<and> sent (snd (Get stub_lib scripted demo_store StorageResourceState ''0123456789abcdef0123456789abcdef''
                  (Some \<lparr>Offset = 0, Length = 0\<rparr>)
                  \<lparr>world = [reply 200 [] ''sha256:616263'', reply 200 [] ''abc''], sent = []\<rparr>))
       = [\<lparr>rq_Method = ''GET'',
           rq_URL = ''http://r/v2/demo/manifests/state-3031323334353637383961626364656630313233343536373839616263646566'',
           rq_Body = None, rq_Header = [(''Accept'', [accept_manifests])]\<rparr>,
          \<lparr>rq_Method = ''GET'', rq_URL = ''http://r/v2/demo/blobs/sha256:616263'',
           rq_Body = None, rq_Header = [(''Range'', [''bytes=0-18446744073709551615''])]\<rparr>]"
proof -
  have run: "sent (snd (Get stub_lib scripted demo_store StorageResourceState ''0123456789abcdef0123456789abcdef''
                  (Some \<lparr>Offset = 0, Length = 0\<rparr>)
                  \<lparr>world = [reply 200 [] ''sha256:616263'', reply 200 [] ''abc''], sent = []\<rparr>))
       = [\<lparr>rq_Method = ''GET'',
           rq_URL = ''http://r/v2/demo/manifests/state-3031323334353637383961626364656630313233343536373839616263646566'',
           rq_Body = None, rq_Header = [(''Accept'', [accept_manifests])]\<rparr>,
          \<lparr>rq_Method = ''GET'', rq_URL = ''http://r/v2/demo/blobs/sha256:616263'',
           rq_Body = None, rq_Header = [(''Range'', [''bytes=0-18446744073709551615''])]\<rparr>]"
  proof -
    have f: "fmt_d 0 = ''0''" "fmt_d 18446744073709551615 = ''18446744073709551615''"
      by (simp_all add: fmt_d.simps digit_char_def)
    have e: "unat (- 1 :: 64 word) = 18446744073709551615"
      by (simp add: unsigned_minus_1_eq_mask mask_eq_exp_minus_1)
    show ?thesis by (simp add: run_simps f e)
  qed
  have sup: "StorageResourceState = StorageResourcePackfile \<or> StorageResourceState = StorageResourceState
      \<or> StorageResourceState = StorageResourceLock"
    by simp
  from get_zero_length_range_wraps [OF sup, where rg = "\<lparr>Offset = 0, Length = 0\<rparr>"
         and lib = stub_lib and tr = scripted and s = demo_store
         and mac = "''0123456789abcdef0123456789abcdef''"
         and st = "\<lparr>world = [reply 200 [] ''sha256:616263'', reply 200 [] ''abc''], sent = []\<rparr>",
         THEN conjunct1]
  have "unat (Offset \<lparr>Offset = 0, Length = 0\<rparr> + ucast (Length \<lparr>Offset = 0, Length = 0\<rparr>) - 1)
       = 18446744073709551615"
    by simp
  with run sup show ?thesis by blast
qed


subsection \<open>Key-space enumeration\<close>

lemma collect_tags_filter:
  "collect_tags prefix' tags out = out @ map (key_of_tag prefix') (filter (accepted_tag prefix') tags)"
proof (induction tags arbitrary: out)
  case Nil
  then show ?case by simp
next
  case (Cons t ts)
  show ?case
  proof (cases "strings_HasPrefix t prefix'")
    case False
    then show ?thesis by (simp add: Cons.IH accepted_tag_def)
  next
    case True
    obtain b err where d: "hex_DecodeString (drop (length prefix') t) = (b, err)"
      by (cases "hex_DecodeString (drop (length prefix') t)")
    show ?thesis
      using True d by (auto simp: Cons.IH accepted_tag_def key_of_tag_def strings_TrimPrefix_def)
  qed
qed

lemma hex_DecodeString_length: "2 * length (fst (hex_DecodeString s)) \<le> length s"
  by (induction s rule: hex_DecodeString.induct) (auto split: option.splits prod.splits)

lemma accepted_tag_length: "accepted_tag prefix' t \<Longrightarrow> length prefix' + 64 \<le> length t"
  using hex_DecodeString_length [of "drop (length prefix') t"]
  by (auto simp: accepted_tag_def strings_HasPrefix_def)

lemma CONFIG_not_accepted: "\<not> accepted_tag prefix' ''CONFIG''"
  using accepted_tag_length [of prefix' "''CONFIG''"] by auto

text \<open>
  Claim C6. When the registry answers the tag list, \<open>listByPrefix\<close> returns, in the order
  of the list, exactly the decoded keys of the tags that start with the prefix and whose
  rest hex-decodes without error to exactly 32 bytes. Every other tag is skipped and the
  call still succeeds; the tag \<open>CONFIG\<close> is skipped for every prefix, and so is a tag that
  does not start with the prefix. Every key returned has 32 bytes.
\<close>

theorem listByPrefix_accepted_keys:
  assumes "tr \<lparr>rq_Method = ''GET'', rq_URL = baseURL s (repoBase s @ ''/tags/list''),
               rq_Body = None, rq_Header = []\<rparr> (world st) = (Inr resp, w)"
    and "200 \<le> StatusCode resp" "StatusCode resp < 300"
    and "json_Decode_tagsList lib (Body resp) = Inr tags"
  shows "fst (listByPrefix lib tr s prefix' st)
           = Inr (map (key_of_tag prefix') (filter (accepted_tag prefix') (Tags tags)))
       \<and> \<not> accepted_tag prefix' ''CONFIG''
       \<and> (\<forall>t. \<not> strings_HasPrefix t prefix' \<longrightarrow> \<not> accepted_tag prefix' t)
       \<and> (\<forall>k \<in> set (map (key_of_tag prefix') (filter (accepted_tag prefix') (Tags tags))). length k = 32)"
proof -
  have "fst (listByPrefix lib tr s prefix' st)
           = Inr (map (key_of_tag prefix') (filter (accepted_tag prefix') (Tags tags)))"
    using assms
    by (simp add: listByPrefix_def doRepoRC_def do_def add_all_Nil Let_def collect_tags_filter)
  moreover have "\<forall>k \<in> set (map (key_of_tag prefix') (filter (accepted_tag prefix') (Tags tags))). length k = 32"
    by (auto simp: accepted_tag_def key_of_tag_def)
  moreover have "\<forall>t. \<not> strings_HasPrefix t prefix' \<longrightarrow> \<not> accepted_tag prefix' t"
    by (simp add: accepted_tag_def)
  moreover note CONFIG_not_accepted [of prefix']
  ultimately show ?thesis
    by blast
qed

theorem listByPrefix_accepted_keys_witness:
  "fst (listByPrefix stub_lib scripted demo_store ''packfiles-''
         \<lparr>world = [reply 200 []
            ''CONFIG,state-3031323334353637383961626364656630313233343536373839616263646566,packfiles-3031323334353637383961626364656630313233343536373839616263646566,packfiles-zz,packfiles-30''],
          sent = []\<rparr>)
     = Inr [''0123456789abcdef0123456789abcdef'']"
proof -
  let ?body = "''CONFIG,state-3031323334353637383961626364656630313233343536373839616263646566,packfiles-3031323334353637383961626364656630313233343536373839616263646566,packfiles-zz,packfiles-30''"
  let ?tags = "\<lparr>Name = [], Tags = [''CONFIG'',
       ''state-3031323334353637383961626364656630313233343536373839616263646566'',
       ''packfiles-3031323334353637383961626364656630313233343536373839616263646566'',
       ''packfiles-zz'', ''packfiles-30'']\<rparr>"
  have t: "scripted \<lparr>rq_Method = ''GET'', rq_URL = baseURL demo_store (repoBase demo_store @ ''/tags/list''),
               rq_Body = None, rq_Header = []\<rparr> (world \<lparr>world = [reply 200 [] ?body], sent = []\<rparr>)
            = (Inr \<lparr>StatusCode = 200, Status = [], Header = [], Body = ?body\<rparr>, [])"
    by (simp add: scripted_def reply_def)
  have j: "json_Decode_tagsList stub_lib (Body \<lparr>StatusCode = 200, Status = [], Header = [], Body = ?body\<rparr>) = Inr ?tags"
    by (simp add: stub_lib_def stub_Decode_tagsList_def strings_Split_def)
  have m: "map (key_of_tag ''packfiles-'') (filter (accepted_tag ''packfiles-'') (Tags ?tags))
             = [''0123456789abcdef0123456789abcdef'']"
  proof -
    have d: "hex_DecodeString ''3031323334353637383961626364656630313233343536373839616263646566''
               = (''0123456789abcdef0123456789abcdef'', None)"
      by (simp add: fromHexChar_def char_of_def bit_iff_odd)
    have dr: "drop (length ''packfiles-'')
                 ''packfiles-3031323334353637383961626364656630313233343536373839616263646566''
               = ''3031323334353637383961626364656630313233343536373839616263646566''"
      by simp
    have a1: "\<not> accepted_tag ''packfiles-'' ''CONFIG''"
      by (rule CONFIG_not_accepted)
    have a2: "\<not> accepted_tag ''packfiles-''
                 ''state-3031323334353637383961626364656630313233343536373839616263646566''"
      by (simp add: accepted_tag_def strings_HasPrefix_def)
    have a3: "accepted_tag ''packfiles-''
                 ''packfiles-3031323334353637383961626364656630313233343536373839616263646566''"
      unfolding accepted_tag_def dr d by (simp add: strings_HasPrefix_def)
    have k3: "key_of_tag ''packfiles-''
                 ''packfiles-3031323334353637383961626364656630313233343536373839616263646566''
               = ''0123456789abcdef0123456789abcdef''"
      unfolding key_of_tag_def dr d by simp
    have a4: "\<not> accepted_tag ''packfiles-'' ''packfiles-zz''"
      by (simp add: accepted_tag_def fromHexChar_def)
    have a5: "\<not> accepted_tag ''packfiles-'' ''packfiles-30''"
      by (simp add: accepted_tag_def fromHexChar_def)
    show ?thesis
      by (simp only: tagsList.simps list.map filter.simps a1 a2 a3 a4 a5 k3 if_True if_False)
  qed
  have "fst (listByPrefix stub_lib scripted demo_store ''packfiles-'' \<lparr>world = [reply 200 [] ?body], sent = []\<rparr>)
          = Inr (map (key_of_tag ''packfiles-'') (filter (accepted_tag ''packfiles-'') (Tags ?tags)))"
    using listByPrefix_accepted_keys [where lib = stub_lib and tr = scripted and s = demo_store
            and st = "\<lparr>world = [reply 200 [] ?body], sent = []\<rparr>"
            and resp = "\<lparr>StatusCode = 200, Status = [], Header = [], Body = ?body\<rparr>"
            and w = "[]" and tags = ?tags and prefix' = "''packfiles-''"] t j
    by simp
  with m show ?thesis by simp
qed


subsection \<open>Protocol-contract violations\<close>

lemma do_answers:
  assumes "answers tr st \<lparr>rq_Method = m, rq_URL = u, rq_Body = b, rq_Header = add_all h []\<rparr> resp st'"
  shows "do lib tr m u b h st = (Inr (Body resp, resp), st')"
  using assms by (cases st') (simp add: answers_def do_def Let_def)

lemma doRepo_answers:
  assumes "answers tr st \<lparr>rq_Method = m, rq_URL = baseURL s (repoBase s @ p), rq_Body = b,
                           rq_Header = add_all h []\<rparr> resp st'"
  shows "doRepo lib tr s m p b h st = (Inr resp, st')"
  by (simp add: doRepo_def do_answers [OF assms])

text \<open>
  Claim C7. Each protocol-contract violation gives a fixed, descriptive error value:
  \<^item> upload initiation answered without \<open>Location\<close>: \<open>uploadBlob\<close> fails with
    "registry missing Location on upload start";
  \<^item> \<open>HEAD\<close> of a manifest answered without \<open>Docker-Content-Digest\<close>:
    \<open>headManifestDigest\<close> fails with "missing Docker-Content-Digest header on HEAD manifest";
  \<^item> on the read path, a manifest body that does not decode fails with
    "decode manifest: " wrapping the decoder's error, a manifest without layers with
    "manifest has no layers", and an empty digest of the first layer with
    "manifest layer digest missing".
  In each case the function returns after that one request. The model has no panic: the
  only partial operation of these paths, \<open>man.Layers[0]\<close>, is guarded by the length test.
\<close>

theorem contract_violations_are_errors:
  "(answers tr st \<lparr>rq_Method = ''POST'', rq_URL = baseURL s (repoBase s @ ''/blobs/uploads/''),
                   rq_Body = None, rq_Header = []\<rparr> resp st'
      \<and> header_Get (Header resp) ''Location'' = []
    \<longrightarrow> uploadBlob lib tr s rd st = (Inl (Errorf ''registry missing Location on upload start''), st'))
   \<and> (answers tr st \<lparr>rq_Method = ''HEAD'', rq_URL = baseURL s (repoBase s @ ''/manifests/'' @ tag),
                       rq_Body = None, rq_Header = [(''Accept'', [accept_manifests])]\<rparr> resp st'
      \<and> header_Get (Header resp) ''Docker-Content-Digest'' = []
    \<longrightarrow> headManifestDigest lib tr s tag st
          = (Inl (Errorf ''missing Docker-Content-Digest header on HEAD manifest''), st'))
   \<and> (answers tr st \<lparr>rq_Method = ''GET'', rq_URL = baseURL s (repoBase s @ ''/manifests/'' @ tag),
                       rq_Body = None, rq_Header = [(''Accept'', [accept_manifests])]\<rparr> resp st'
      \<longrightarrow>
        (json_Decode_manifest lib (Body resp) = Inl e
           \<longrightarrow> getByTag lib tr s tag h st = (Inl (ErrorfWrap ''decode manifest: '' e), st'))
      \<and> (json_Decode_manifest lib (Body resp) = Inr man \<and> Layers man = []
           \<longrightarrow> getByTag lib tr s tag h st = (Inl (Errorf ''manifest has no layers''), st'))
      \<and> (json_Decode_manifest lib (Body resp) = Inr man \<and> Layers man = layer # rest
             \<and> Digest layer = []
           \<longrightarrow> getByTag lib tr s tag h st = (Inl (Errorf ''manifest layer digest missing''), st')))"
proof -
  have post: "uploadBlob lib tr s rd st = (Inl (Errorf ''registry missing Location on upload start''), st')"
    if "answers tr st \<lparr>rq_Method = ''POST'', rq_URL = baseURL s (repoBase s @ ''/blobs/uploads/''),
                   rq_Body = None, rq_Header = []\<rparr> resp st'"
      and "header_Get (Header resp) ''Location'' = []"
  proof -
    have "doRepo lib tr s ''POST'' ''/blobs/uploads/'' None [] st = (Inr resp, st')"
      by (rule doRepo_answers) (use that in \<open>simp add: add_all_Nil\<close>)
    then show ?thesis by (simp add: uploadBlob_def that)
  qed
  have head: "headManifestDigest lib tr s tag st
          = (Inl (Errorf ''missing Docker-Content-Digest header on HEAD manifest''), st')"
    if "answers tr st \<lparr>rq_Method = ''HEAD'', rq_URL = baseURL s (repoBase s @ ''/manifests/'' @ tag),
                       rq_Body = None, rq_Header = [(''Accept'', [accept_manifests])]\<rparr> resp st'"
      and "header_Get (Header resp) ''Docker-Content-Digest'' = []"
  proof -
    have "doRepo lib tr s ''HEAD'' (''/manifests/'' @ tag) None [(''Accept'', [accept_manifests])] st
            = (Inr resp, st')"
      by (rule doRepo_answers) (use that in \<open>simp add: add_all_single\<close>)
    then show ?thesis by (simp add: headManifestDigest_def header_Set_Nil that)
  qed
  have get: "doRepoRC lib tr s ''GET'' (''/manifests/'' @ tag) None [(''Accept'', [accept_manifests])] st
            = (Inr (Body resp, resp), st')"
    if "answers tr st \<lparr>rq_Method = ''GET'', rq_URL = baseURL s (repoBase s @ ''/manifests/'' @ tag),
                       rq_Body = None, rq_Header = [(''Accept'', [accept_manifests])]\<rparr> resp st'"
    unfolding doRepoRC_def by (rule do_answers) (use that in \<open>simp add: add_all_single\<close>)
  show ?thesis
    using post head get by (simp add: getByTag_def header_Set_Nil)
qed

theorem contract_violations_are_errors_witness:
  "uploadBlob stub_lib scripted demo_store ''abc'' \<lparr>world = [reply 202 [] []], sent = []\<rparr>
     = (Inl (Errorf ''registry missing Location on upload start''),
        \<lparr>world = [], sent = [\<lparr>rq_Method = ''POST'', rq_URL = ''http://r/v2/demo/blobs/uploads/'',
                                rq_Body = None, rq_Header = []\<rparr>]\<rparr>)
   \<and> headManifestDigest stub_lib scripted demo_store ''CONFIG'' \<lparr>world = [reply 200 [] []], sent = []\<rparr>
     = (Inl (Errorf ''missing Docker-Content-Digest header on HEAD manifest''),
        \<lparr>world = [], sent = [\<lparr>rq_Method = ''HEAD'', rq_URL = ''http://r/v2/demo/manifests/CONFIG'',
                                rq_Body = None, rq_Header = [(''Accept'', [accept_manifests])]\<rparr>]\<rparr>)
   \<and> getByTag (stub_lib\<lparr>json_Decode_manifest := \<lambda>b. Inl (ErrExternal ''unexpected end of JSON input'')\<rparr>)
        scripted demo_store ''CONFIG'' [] \<lparr>world = [reply 200 [] ''{''], sent = []\<rparr>
     = (Inl (ErrorfWrap ''decode manifest: '' (ErrExternal ''unexpected end of JSON input'')),
        \<lparr>world = [], sent = [\<lparr>rq_Method = ''GET'', rq_URL = ''http://r/v2/demo/manifests/CONFIG'',
                                rq_Body = None, rq_Header = [(''Accept'', [accept_manifests])]\<rparr>]\<rparr>)
   \<and> getByTag (stub_lib\<lparr>json_Decode_manifest := \<lambda>b. Inr \<lparr>SchemaVersion = 2, ManifestMediaType = [],
                     Config = \<lparr>MediaType = [], Digest = [], Size = 2\<rparr>, Layers = []\<rparr>\<rparr>)
        scripted demo_store ''CONFIG'' [] \<lparr>world = [reply 200 [] ''{}''], sent = []\<rparr>
     = (Inl (Errorf ''manifest has no layers''),
        \<lparr>world = [], sent = [\<lparr>rq_Method = ''GET'', rq_URL = ''http://r/v2/demo/manifests/CONFIG'',
                                rq_Body = None, rq_Header = [(''Accept'', [accept_manifests])]\<rparr>]\<rparr>)
   \<and> getByTag stub_lib scripted demo_store ''CONFIG'' [] \<lparr>world = [reply 200 [] []], sent = []\<rparr>
     = (Inl (Errorf ''manifest layer digest missing''),
        \<lparr>world = [], sent = [\<lparr>rq_Method = ''GET'', rq_URL = ''http://r/v2/demo/manifests/CONFIG'',
                                rq_Body = None, rq_Header = [(''Accept'', [accept_manifests])]\<rparr>]\<rparr>)"
proof (intro conjI)
  show "uploadBlob stub_lib scripted demo_store ''abc'' \<lparr>world = [reply 202 [] []], sent = []\<rparr>
     = (Inl (Errorf ''registry missing Location on upload start''),
        \<lparr>world = [], sent = [\<lparr>rq_Method = ''POST'', rq_URL = ''http://r/v2/demo/blobs/uploads/'',
                                rq_Body = None, rq_Header = []\<rparr>]\<rparr>)"
    by (rule contract_violations_are_errors
          [where resp = "\<lparr>StatusCode = 202, Status = [], Header = [], Body = []\<rparr>",
           THEN conjunct1, THEN mp])
       (simp add: answers_def scripted_def reply_def demo_store_def baseURL_def repoBase_def
          header_Get_def header_values_def)
  show "headManifestDigest stub_lib scripted demo_store ''CONFIG'' \<lparr>world = [reply 200 [] []], sent = []\<rparr>
     = (Inl (Errorf ''missing Docker-Content-Digest header on HEAD manifest''),
        \<lparr>world = [], sent = [\<lparr>rq_Method = ''HEAD'', rq_URL = ''http://r/v2/demo/manifests/CONFIG'',
                                rq_Body = None, rq_Header = [(''Accept'', [accept_manifests])]\<rparr>]\<rparr>)"
    by (rule contract_violations_are_errors
          [where resp = "\<lparr>StatusCode = 200, Status = [], Header = [], Body = []\<rparr>",
           THEN conjunct2, THEN conjunct1, THEN mp])
       (simp add: answers_def scripted_def reply_def demo_store_def baseURL_def repoBase_def
          header_Get_def header_values_def)
  show "getByTag (stub_lib\<lparr>json_Decode_manifest := \<lambda>b. Inl (ErrExternal ''unexpected end of JSON input'')\<rparr>)
        scripted demo_store ''CONFIG'' [] \<lparr>world = [reply 200 [] ''{''], sent = []\<rparr>
     = (Inl (ErrorfWrap ''decode manifest: '' (ErrExternal ''unexpected end of JSON input'')),
        \<lparr>world = [], sent = [\<lparr>rq_Method = ''GET'', rq_URL = ''http://r/v2/demo/manifests/CONFIG'',
                                rq_Body = None, rq_Header = [(''Accept'', [accept_manifests])]\<rparr>]\<rparr>)"
    by (rule contract_violations_are_errors
          [where resp = "\<lparr>StatusCode = 200, Status = [], Header = [], Body = ''{''\<rparr>",
           THEN conjunct2, THEN conjunct2, THEN mp, THEN conjunct1, THEN mp])
       (simp_all add: answers_def scripted_def reply_def demo_store_def baseURL_def repoBase_def)
  show "getByTag (stub_lib\<lparr>json_Decode_manifest := \<lambda>b. Inr \<lparr>SchemaVersion = 2, ManifestMediaType = [],
                     Config = \<lparr>MediaType = [], Digest = [], Size = 2\<rparr>, Layers = []\<rparr>\<rparr>)
        scripted demo_store ''CONFIG'' [] \<lparr>world = [reply 200 [] ''{}''], sent = []\<rparr>
     = (Inl (Errorf ''manifest has no layers''),
        \<lparr>world = [], sent = [\<lparr>rq_Method = ''GET'', rq_URL = ''http://r/v2/demo/manifests/CONFIG'',
                                rq_Body = None, rq_Header = [(''Accept'', [accept_manifests])]\<rparr>]\<rparr>)"
    by (rule contract_violations_are_errors
          [where resp = "\<lparr>StatusCode = 200, Status = [], Header = [], Body = ''{}''\<rparr>"
             and man = "\<lparr>SchemaVersion = 2, ManifestMediaType = [],
                     Config = \<lparr>MediaType = [], Digest = [], Size = 2\<rparr>, Layers = []\<rparr>",
           THEN conjunct2, THEN conjunct2, THEN mp, THEN conjunct2, THEN conjunct1, THEN mp])
       (simp_all add: answers_def scripted_def reply_def demo_store_def baseURL_def repoBase_def)
  show "getByTag stub_lib scripted demo_store ''CONFIG'' [] \<lparr>world = [reply 200 [] []], sent = []\<rparr>
     = (Inl (Errorf ''manifest layer digest missing''),
        \<lparr>world = [], sent = [\<lparr>rq_Method = ''GET'', rq_URL = ''http://r/v2/demo/manifests/CONFIG'',
                                rq_Body = None, rq_Header = [(''Accept'', [accept_manifests])]\<rparr>]\<rparr>)"
    by (rule contract_violations_are_errors
          [where resp = "\<lparr>StatusCode = 200, Status = [], Header = [], Body = []\<rparr>"
             and man = "\<lparr>SchemaVersion = 2, ManifestMediaType = [],
                     Config = \<lparr>MediaType = [], Digest = [], Size = 2\<rparr>,
                     Layers = [\<lparr>MediaType = [], Digest = [], Size = 0\<rparr>]\<rparr>"
             and layer = "\<lparr>MediaType = [], Digest = [], Size = 0\<rparr>" and rest = "[]",
           THEN conjunct2, THEN conjunct2, THEN mp, THEN conjunct2, THEN conjunct2, THEN mp])
       (simp_all add: answers_def scripted_def reply_def demo_store_def baseURL_def repoBase_def
          stub_lib_def stub_Decode_manifest_def)
qed


subsection \<open>Blob upload\<close>

lemma uploadBlob_after_patch:
  assumes "upload_streamed lib tr s rd st u resp2 st2"
  shows "uploadBlob lib tr s rd st =
     (case latest_location lib s u resp2 of
        Inl err \<Rightarrow> (Inl err, st2)
      | Inr u' \<Rightarrow>
          (case do lib tr ''PUT'' (finalize_url u' (''sha256:'' @ fmt_x (sha256_Sum lib rd))) None [] st2 of
             (Inl err, st3) \<Rightarrow> (Inl err, st3)
           | (Inr x, st3) \<Rightarrow>
               (Inr (''sha256:'' @ fmt_x (sha256_Sum lib rd),
                     parseUploadedSize lib (header_Get (Header resp2) ''Range'')), st3)))"
proof -
  from assms obtain resp st1 where
    post: "answers tr st \<lparr>rq_Method = ''POST'', rq_URL = baseURL s (repoBase s @ ''/blobs/uploads/''),
                        rq_Body = None, rq_Header = []\<rparr> resp st1"
    and loc: "header_Get (Header resp) ''Location'' \<noteq> []"
    and res: "resolveLocation lib s (header_Get (Header resp) ''Location'') = Inr u"
    and patch: "answers tr st1 \<lparr>rq_Method = ''PATCH'', rq_URL = u, rq_Body = Some rd,
                           rq_Header = [(''Content-Type'', [''application/octet-stream''])]\<rparr> resp2 st2"
    unfolding upload_streamed_def by blast
  have 1: "doRepo lib tr s ''POST'' ''/blobs/uploads/'' None [] st = (Inr resp, st1)"
    by (rule doRepo_answers) (use post in \<open>simp add: add_all_Nil\<close>)
  have 2: "do lib tr ''PATCH'' u (Some rd) [(''Content-Type'', [''application/octet-stream''])] st1
             = (Inr (Body resp2, resp2), st2)"
    by (rule do_answers) (use patch in \<open>simp add: add_all_single\<close>)
  show ?thesis
    by (simp add: uploadBlob_def 1 2 loc res header_Set_Nil latest_location_def Let_def
          split: sum.splits prod.splits)
qed

lemma parseUploadedSize_zero:
  "rng = [] \<or> length (strings_Split rng CHR ''-'') \<noteq> 2 \<Longrightarrow> parseUploadedSize lib rng = 0"
  by (auto simp: parseUploadedSize_def Let_def)

subsection \<open>Hex digests and query escaping\<close>

lemma hex_digit_mem: "d < 16 \<Longrightarrow> hex_digit d \<in> set ''0123456789abcdef''"
  unfolding hex_digit_def by (rule nth_mem) simp

lemma fmt_x_chars: "set (fmt_x bs) \<subseteq> set ''0123456789abcdef''"
proof -
  have "of_char b div 16 < (16 :: nat)" "of_char b mod 16 < (16 :: nat)" for b :: char
  proof -
    have "of_char b < (256 :: nat)" by simp
    then show "of_char b div 16 < (16 :: nat)" by (simp add: less_mult_imp_div_less)
    show "of_char b mod 16 < (16 :: nat)" by simp
  qed
  then have "hex_digit (of_char b div 16) \<in> set ''0123456789abcdef''"
    "hex_digit (of_char b mod 16) \<in> set ''0123456789abcdef''" for b :: char
    by (simp_all only: hex_digit_mem)
  then show ?thesis
    unfolding fmt_x_def by (induction bs) auto
qed

lemma hexchars_unreserved: "c \<in> set ''0123456789abcdef'' \<Longrightarrow> unreserved c"
  by (auto simp: unreserved_def)

lemma hexchars_plain: "c \<in> set ''0123456789abcdef'' \<Longrightarrow> c \<noteq> CHR ''%'' \<and> c \<noteq> CHR ''+''"
  by auto

lemma url_QueryEscape_append: "url_QueryEscape (a @ b) = url_QueryEscape a @ url_QueryEscape b"
  by (simp add: url_QueryEscape_def)

lemma url_QueryEscape_unreserved: "\<forall>c \<in> set s. unreserved c \<Longrightarrow> url_QueryEscape s = s"
  by (induction s) (simp_all add: url_QueryEscape_def escape_byte_def)

lemma url_QueryUnescape_plain:
  "\<forall>c \<in> set s. c \<noteq> CHR ''%'' \<and> c \<noteq> CHR ''+'' \<Longrightarrow> url_QueryUnescape s = Some s"
  by (induction s) simp_all

lemma url_QueryEscape_digest:
  "url_QueryEscape (''sha256:'' @ fmt_x h) = ''sha256%3A'' @ fmt_x h"
proof -
  have "url_QueryEscape ''sha256:'' = ''sha256%3A''"
    by (simp add: url_QueryEscape_def escape_byte_def unreserved_def upper_hex_digit_def)
  moreover have "url_QueryEscape (fmt_x h) = fmt_x h"
    using fmt_x_chars [of h] by (intro url_QueryEscape_unreserved) (blast intro: hexchars_unreserved)
  ultimately show ?thesis by (simp only: url_QueryEscape_append)
qed

lemma url_QueryUnescape_digest:
  "url_QueryUnescape (''sha256%3A'' @ fmt_x h) = Some (''sha256:'' @ fmt_x h)"
proof -
  have "url_QueryUnescape (fmt_x h) = Some (fmt_x h)"
    using fmt_x_chars [of h] by (intro url_QueryUnescape_plain) (blast dest: hexchars_plain)
  then show ?thesis
    by (simp add: fromHexChar_def char_of_def bit_iff_odd)
qed


text \<open>
  Claim C2, as stated, fails. The specification says that with the \<open>Range\<close> header of the
  PATCH response absent or malformed the size returned is the number of bytes streamed.
  \<open>uploadBlob\<close> keeps no count of the bytes it streams: \<open>parseUploadedSize\<close> returns 0
  for an empty header and for one that does not split at \<open>-\<close> into exactly two parts.
  Here three bytes are streamed, the answer to the PATCH has no \<open>Range\<close>, and the upload
  succeeds with size 0.
\<close>

theorem upload_size_absent_range_counterexample:
  "header_Get (Header \<lparr>StatusCode = 202, Status = [], Header = [], Body = []\<rparr>) ''Range'' = []
   \<and> uploadBlob stub_lib scripted demo_store ''abc''
        \<lparr>world = [reply 202 [(''Location'', [''/v2/demo/blobs/uploads/1''])] [],
                  reply 202 [] [], reply 201 [] []], sent = []\<rparr>
     = (Inr (''sha256:616263'', 0),
        \<lparr>world = [],
         sent = [\<lparr>rq_Method = ''POST'', rq_URL = ''http://r/v2/demo/blobs/uploads/'',
                  rq_Body = None, rq_Header = []\<rparr>,
                 \<lparr>rq_Method = ''PATCH'', rq_URL = ''http://r/v2/demo/blobs/uploads/1'',
                  rq_Body = Some ''abc'',
                  rq_Header = [(''Content-Type'', [''application/octet-stream''])]\<rparr>,
                 \<lparr>rq_Method = ''PUT'',
                  rq_URL = ''http://r/v2/demo/blobs/uploads/1?digest=sha256%3A616263'',
                  rq_Body = None, rq_Header = []\<rparr>]\<rparr>)
   \<and> sint (0 :: 64 word) \<noteq> int (length ''abc'')"
  by (simp add: run_simps)

text \<open>
  Claim C2, amended. When the first two steps of the upload have succeeded and the
  \<open>Range\<close> header of the PATCH response is absent (or empty) or does not split at \<open>-\<close>
  into exactly two parts, the upload either fails at a later step or returns the digest
  of the payload and the size 0.
\<close>

theorem upload_size_without_range:
  assumes "upload_streamed lib tr s rd st u resp2 st2"
    and "header_Get (Header resp2) ''Range'' = []
         \<or> length (strings_Split (header_Get (Header resp2) ''Range'') CHR ''-'') \<noteq> 2"
  shows "(\<exists>e. fst (uploadBlob lib tr s rd st) = Inl e)
       \<or> fst (uploadBlob lib tr s rd st) = Inr (''sha256:'' @ fmt_x (sha256_Sum lib rd), 0)"
  by (simp add: uploadBlob_after_patch [OF assms(1)] parseUploadedSize_zero [OF assms(2)]
        split: sum.splits prod.splits)

theorem upload_size_without_range_witness:
  "upload_streamed stub_lib scripted demo_store ''abcd''
     \<lparr>world = [reply 202 [(''Location'', [''/v2/demo/blobs/uploads/2''])] [],
               reply 202 [(''Range'', [''0-1-2''])] [], reply 201 [] []], sent = []\<rparr>
     ''http://r/v2/demo/blobs/uploads/2''
     \<lparr>StatusCode = 202, Status = [], Header = [(''Range'', [''0-1-2''])], Body = []\<rparr>
     \<lparr>world = [reply 201 [] []],
      sent = [\<lparr>rq_Method = ''POST'', rq_URL = ''http://r/v2/demo/blobs/uploads/'',
               rq_Body = None, rq_Header = []\<rparr>,
              \<lparr>rq_Method = ''PATCH'', rq_URL = ''http://r/v2/demo/blobs/uploads/2'',
               rq_Body = Some ''abcd'',
               rq_Header = [(''Content-Type'', [''application/octet-stream''])]\<rparr>]\<rparr>
   \<and> length (strings_Split ''0-1-2'' CHR ''-'') = 3
   \<and> fst (uploadBlob stub_lib scripted demo_store ''abcd''
         \<lparr>world = [reply 202 [(''Location'', [''/v2/demo/blobs/uploads/2''])] [],
                   reply 202 [(''Range'', [''0-1-2''])] [], reply 201 [] []], sent = []\<rparr>)
       = Inr (''sha256:61626364'', 0)"
proof -
  let ?st = "\<lparr>world = [reply 202 [(''Location'', [''/v2/demo/blobs/uploads/2''])] [],
               reply 202 [(''Range'', [''0-1-2''])] [], reply 201 [] []], sent = []\<rparr>"
  let ?resp2 = "\<lparr>StatusCode = 202, Status = [], Header = [(''Range'', [''0-1-2''])], Body = []\<rparr>"
  let ?st2 = "\<lparr>world = [reply 201 [] []],
      sent = [\<lparr>rq_Method = ''POST'', rq_URL = ''http://r/v2/demo/blobs/uploads/'',
               rq_Body = None, rq_Header = []\<rparr>,
              \<lparr>rq_Method = ''PATCH'', rq_URL = ''http://r/v2/demo/blobs/uploads/2'',
               rq_Body = Some ''abcd'',
               rq_Header = [(''Content-Type'', [''application/octet-stream''])]\<rparr>]\<rparr>"
  have s: "upload_streamed stub_lib scripted demo_store ''abcd'' ?st ''http://r/v2/demo/blobs/uploads/2''
             ?resp2 ?st2"
    unfolding upload_streamed_def
    by (rule exI [of _ "\<lparr>StatusCode = 202, Status = [],
                          Header = [(''Location'', [''/v2/demo/blobs/uploads/2''])], Body = []\<rparr>"],
        rule exI [of _ "\<lparr>world = [reply 202 [(''Range'', [''0-1-2''])] [], reply 201 [] []],
                          sent = [\<lparr>rq_Method = ''POST'', rq_URL = ''http://r/v2/demo/blobs/uploads/'',
                                   rq_Body = None, rq_Header = []\<rparr>]\<rparr>"])
       (simp add: answers_def run_simps)
  have r: "header_Get (Header ?resp2) ''Range'' = []
         \<or> length (strings_Split (header_Get (Header ?resp2) ''Range'') CHR ''-'') \<noteq> 2"
    by (simp add: header_Get_def header_values_def strings_Split_def)
  have run: "fst (uploadBlob stub_lib scripted demo_store ''abcd'' ?st) \<noteq> Inl e" for e
    by (simp add: run_simps)
  have "fst (uploadBlob stub_lib scripted demo_store ''abcd'' ?st)
          = Inr (''sha256:'' @ fmt_x (sha256_Sum stub_lib ''abcd''), 0)"
    using upload_size_without_range [OF s r] run by blast
  moreover have "''sha256:'' @ fmt_x (sha256_Sum stub_lib ''abcd'') = ''sha256:61626364''"
    by (simp add: stub_lib_def fmt_x_def hex_digit_def)
  moreover have "length (strings_Split ''0-1-2'' CHR ''-'') = 3"
    by (simp add: strings_Split_def)
  ultimately show ?thesis using s by simp
qed


lemma url_setPath_keeps:
  "Scheme (url_setPath lib u p) = Scheme u" "Host (url_setPath lib u p) = Host u"
  "User (url_setPath lib u p) = User u" "RawQuery (url_setPath lib u p) = RawQuery u"
  by (simp_all add: url_setPath_def split: sum.splits)

lemma url_ResolveReference_absolute:
  assumes "Scheme ref \<noteq> []"
  shows "Scheme (url_ResolveReference lib b ref) = Scheme ref"
    and "Host (url_ResolveReference lib b ref) = Host ref"
    and "User (url_ResolveReference lib b ref) = User ref"
    and "RawQuery (url_ResolveReference lib b ref) = RawQuery ref"
  using assms by (simp_all add: url_ResolveReference_def url_setPath_keeps)

lemma url_ResolveReference_relative:
  assumes "Scheme ref = []" "Host ref = []" "User ref = None" "Opaque ref = []" "Path ref \<noteq> []"
  shows "Scheme (url_ResolveReference lib b ref) = Scheme b"
    and "Host (url_ResolveReference lib b ref) = Host b"
    and "User (url_ResolveReference lib b ref) = User b"
    and "RawQuery (url_ResolveReference lib b ref) = RawQuery ref"
  using assms by (simp_all add: url_ResolveReference_def url_setPath_keeps Let_def)

text \<open>
  Claim C4. Once the payload has been streamed, the session location is the location used
  for the PATCH when its response carries no \<open>Location\<close>, and otherwise the \<open>Location\<close>
  resolved against the store origin: both are parsed by \<open>url.Parse\<close> (the origin without
  its trailing slashes) and the result is the string of \<open>origin.ResolveReference(location)\<close>.
  An absolute \<open>Location\<close> (one with a scheme) keeps its own scheme, host and user
  information; a relative one (no scheme, host, user information or opaque part, and a
  path) takes those of the origin, and each keeps its own query. If either parse fails the
  upload fails with that error. Otherwise the next and last request is a PUT with no body
  and no header to the latest location followed by \<open>&\<close> when the location contains a
  \<open>?\<close> and by \<open>?\<close> when it does not, and then by \<open>digest=\<close> and the query-escaped digest
  \<open>sha256:<hex>\<close>, which reads \<open>sha256%3A<hex>\<close> in the URL and unescapes to
  \<open>sha256:<hex>\<close>. A response to that PUT with a status outside 200..299, and an error of
  the transport, fail the upload.
\<close>

theorem finalize_at_latest_location:
  assumes "upload_streamed lib tr s rd st u resp2 st2"
  shows "(header_Get (Header resp2) ''Location'' = [] \<longrightarrow> latest_location lib s u resp2 = Inr u)
       \<and> (\<forall>e. header_Get (Header resp2) ''Location'' \<noteq> []
               \<and> (url_Parse lib (strings_TrimRight (base s) CHR ''/'') = Inl e
                  \<or> (\<exists>b. url_Parse lib (strings_TrimRight (base s) CHR ''/'') = Inr b)
                    \<and> url_Parse lib (header_Get (Header resp2) ''Location'') = Inl e)
             \<longrightarrow> latest_location lib s u resp2 = Inl e)
       \<and> (\<forall>b ref. header_Get (Header resp2) ''Location'' \<noteq> []
               \<and> url_Parse lib (strings_TrimRight (base s) CHR ''/'') = Inr b
               \<and> url_Parse lib (header_Get (Header resp2) ''Location'') = Inr ref
             \<longrightarrow> latest_location lib s u resp2 = Inr (url_String lib (url_ResolveReference lib b ref))
               \<and> (Scheme ref \<noteq> []
                    \<longrightarrow> Scheme (url_ResolveReference lib b ref) = Scheme ref
                      \<and> Host (url_ResolveReference lib b ref) = Host ref
                      \<and> User (url_ResolveReference lib b ref) = User ref
                      \<and> RawQuery (url_ResolveReference lib b ref) = RawQuery ref)
               \<and> (Scheme ref = [] \<and> Host ref = [] \<and> User ref = None \<and> Opaque ref = []
                     \<and> Path ref \<noteq> []
                    \<longrightarrow> Scheme (url_ResolveReference lib b ref) = Scheme b
                      \<and> Host (url_ResolveReference lib b ref) = Host b
                      \<and> User (url_ResolveReference lib b ref) = User b
                      \<and> RawQuery (url_ResolveReference lib b ref) = RawQuery ref))
       \<and> (\<forall>err. latest_location lib s u resp2 = Inl err
             \<longrightarrow> uploadBlob lib tr s rd st = (Inl err, st2))
       \<and> (\<forall>u'. latest_location lib s u resp2 = Inr u' \<longrightarrow>
             sent (snd (uploadBlob lib tr s rd st))
               = sent st2 @ [\<lparr>rq_Method = ''PUT'',
                               rq_URL = u' @ (if strings_Contains u' ''?'' then ''&'' else ''?'')
                                          @ ''digest='' @ ''sha256%3A'' @ fmt_x (sha256_Sum lib rd),
                               rq_Body = None, rq_Header = []\<rparr>]
             \<and> (\<forall>resp3 w.
                   tr \<lparr>rq_Method = ''PUT'',
                       rq_URL = u' @ (if strings_Contains u' ''?'' then ''&'' else ''?'')
                                  @ ''digest='' @ ''sha256%3A'' @ fmt_x (sha256_Sum lib rd),
                       rq_Body = None, rq_Header = []\<rparr> (world st2) = (Inr resp3, w)
                   \<and> \<not> (200 \<le> StatusCode resp3 \<and> StatusCode resp3 < 300)
                   \<longrightarrow> fst (uploadBlob lib tr s rd st)
                         = Inl (ErrStatus ''PUT''
                                  (u' @ (if strings_Contains u' ''?'' then ''&'' else ''?'')
                                      @ ''digest='' @ ''sha256%3A'' @ fmt_x (sha256_Sum lib rd))
                                  (Status resp3) (strings_TrimSpace lib (take 65536 (Body resp3)))))
             \<and> (\<forall>e w.
                   tr \<lparr>rq_Method = ''PUT'',
                       rq_URL = u' @ (if strings_Contains u' ''?'' then ''&'' else ''?'')
                                  @ ''digest='' @ ''sha256%3A'' @ fmt_x (sha256_Sum lib rd),
                       rq_Body = None, rq_Header = []\<rparr> (world st2) = (Inl e, w)
                   \<longrightarrow> fst (uploadBlob lib tr s rd st) = Inl e))
       \<and> url_QueryUnescape (''sha256%3A'' @ fmt_x (sha256_Sum lib rd))
           = Some (''sha256:'' @ fmt_x (sha256_Sum lib rd))"
proof -
  let ?d = "''sha256:'' @ fmt_x (sha256_Sum lib rd)"
  have fin: "finalize_url u' ?d
               = u' @ (if strings_Contains u' ''?'' then ''&'' else ''?'')
                    @ ''digest='' @ ''sha256%3A'' @ fmt_x (sha256_Sum lib rd)" for u'
    unfolding finalize_url_def url_QueryEscape_digest by simp
  have up: "uploadBlob lib tr s rd st =
     (case latest_location lib s u resp2 of
        Inl err \<Rightarrow> (Inl err, st2)
      | Inr u' \<Rightarrow>
          (case do lib tr ''PUT'' (finalize_url u' ?d) None [] st2 of
             (Inl err, st3) \<Rightarrow> (Inl err, st3)
           | (Inr x, st3) \<Rightarrow>
               (Inr (?d, parseUploadedSize lib (header_Get (Header resp2) ''Range'')), st3)))"
    by (rule uploadBlob_after_patch [OF assms])
  have a: "header_Get (Header resp2) ''Location'' = [] \<longrightarrow> latest_location lib s u resp2 = Inr u"
    by (simp add: latest_location_def)
  have a1: "\<forall>e. header_Get (Header resp2) ''Location'' \<noteq> []
               \<and> (url_Parse lib (strings_TrimRight (base s) CHR ''/'') = Inl e
                  \<or> (\<exists>b. url_Parse lib (strings_TrimRight (base s) CHR ''/'') = Inr b)
                    \<and> url_Parse lib (header_Get (Header resp2) ''Location'') = Inl e)
             \<longrightarrow> latest_location lib s u resp2 = Inl e"
    by (auto simp: latest_location_def resolveLocation_def)
  have b: "\<forall>b ref. header_Get (Header resp2) ''Location'' \<noteq> []
               \<and> url_Parse lib (strings_TrimRight (base s) CHR ''/'') = Inr b
               \<and> url_Parse lib (header_Get (Header resp2) ''Location'') = Inr ref
             \<longrightarrow> latest_location lib s u resp2 = Inr (url_String lib (url_ResolveReference lib b ref))
               \<and> (Scheme ref \<noteq> []
                    \<longrightarrow> Scheme (url_ResolveReference lib b ref) = Scheme ref
                      \<and> Host (url_ResolveReference lib b ref) = Host ref
                      \<and> User (url_ResolveReference lib b ref) = User ref
                      \<and> RawQuery (url_ResolveReference lib b ref) = RawQuery ref)
               \<and> (Scheme ref = [] \<and> Host ref = [] \<and> User ref = None \<and> Opaque ref = []
                     \<and> Path ref \<noteq> []
                    \<longrightarrow> Scheme (url_ResolveReference lib b ref) = Scheme b
                      \<and> Host (url_ResolveReference lib b ref) = Host b
                      \<and> User (url_ResolveReference lib b ref) = User b
                      \<and> RawQuery (url_ResolveReference lib b ref) = RawQuery ref)"
    by (simp add: latest_location_def resolveLocation_def url_ResolveReference_absolute
          url_ResolveReference_relative)
  have c: "\<forall>err. latest_location lib s u resp2 = Inl err
             \<longrightarrow> uploadBlob lib tr s rd st = (Inl err, st2)"
    by (simp add: up)
  have d: "sent (snd (uploadBlob lib tr s rd st))
               = sent st2 @ [\<lparr>rq_Method = ''PUT'', rq_URL = finalize_url u' ?d,
                               rq_Body = None, rq_Header = []\<rparr>]"
    if "latest_location lib s u resp2 = Inr u'" for u'
  proof -
    obtain r st3 where p: "do lib tr ''PUT'' (finalize_url u' ?d) None [] st2 = (r, st3)"
      by (cases "do lib tr ''PUT'' (finalize_url u' ?d) None [] st2")
    from do_sent [OF p] p show ?thesis
      by (simp add: up that add_all_Nil split: sum.splits)
  qed
  have e: "fst (uploadBlob lib tr s rd st)
                         = Inl (ErrStatus ''PUT'' (finalize_url u' ?d)
                                  (Status resp3) (strings_TrimSpace lib (take 65536 (Body resp3))))"
    if "latest_location lib s u resp2 = Inr u'"
      and "tr \<lparr>rq_Method = ''PUT'', rq_URL = finalize_url u' ?d,
                       rq_Body = None, rq_Header = []\<rparr> (world st2) = (Inr resp3, w)"
      and "\<not> (200 \<le> StatusCode resp3 \<and> StatusCode resp3 < 300)" for u' resp3 w
    using that by (simp add: up do_def add_all_Nil Let_def)
  have f: "fst (uploadBlob lib tr s rd st) = Inl e"
    if "latest_location lib s u resp2 = Inr u'"
      and "tr \<lparr>rq_Method = ''PUT'', rq_URL = finalize_url u' ?d,
                       rq_Body = None, rq_Header = []\<rparr> (world st2) = (Inl e, w)" for u' e w
    using that by (simp add: up do_def add_all_Nil Let_def)
  have g: "\<forall>u'. latest_location lib s u resp2 = Inr u' \<longrightarrow>
             sent (snd (uploadBlob lib tr s rd st))
               = sent st2 @ [\<lparr>rq_Method = ''PUT'',
                               rq_URL = u' @ (if strings_Contains u' ''?'' then ''&'' else ''?'')
                                          @ ''digest='' @ ''sha256%3A'' @ fmt_x (sha256_Sum lib rd),
                               rq_Body = None, rq_Header = []\<rparr>]
             \<and> (\<forall>resp3 w.
                   tr \<lparr>rq_Method = ''PUT'',
                       rq_URL = u' @ (if strings_Contains u' ''?'' then ''&'' else ''?'')
                                  @ ''digest='' @ ''sha256%3A'' @ fmt_x (sha256_Sum lib rd),
                       rq_Body = None, rq_Header = []\<rparr> (world st2) = (Inr resp3, w)
                   \<and> \<not> (200 \<le> StatusCode resp3 \<and> StatusCode resp3 < 300)
                   \<longrightarrow> fst (uploadBlob lib tr s rd st)
                         = Inl (ErrStatus ''PUT''
                                  (u' @ (if strings_Contains u' ''?'' then ''&'' else ''?'')
                                      @ ''digest='' @ ''sha256%3A'' @ fmt_x (sha256_Sum lib rd))
                                  (Status resp3) (strings_TrimSpace lib (take 65536 (Body resp3)))))
             \<and> (\<forall>e w.
                   tr \<lparr>rq_Method = ''PUT'',
                       rq_URL = u' @ (if strings_Contains u' ''?'' then ''&'' else ''?'')
                                  @ ''digest='' @ ''sha256%3A'' @ fmt_x (sha256_Sum lib rd),
                       rq_Body = None, rq_Header = []\<rparr> (world st2) = (Inl e, w)
                   \<longrightarrow> fst (uploadBlob lib tr s rd st) = Inl e)"
    using d e f unfolding fin by blast
  show ?thesis
    by (intro conjI a a1 b c g url_QueryUnescape_digest)
qed


theorem finalize_at_latest_location_witness:
  "upload_streamed stub_lib scripted demo_store ''abc''
     \<lparr>world = [reply 202 [(''Location'', [''/v2/demo/blobs/uploads/1''])] [],
               reply 202 [(''Location'', [''/v2/demo/blobs/uploads/1?_state=xyz''])] [],
               reply 400 [] ''digest invalid''], sent = []\<rparr>
     ''http://r/v2/demo/blobs/uploads/1''
     \<lparr>StatusCode = 202, Status = [],
      Header = [(''Location'', [''/v2/demo/blobs/uploads/1?_state=xyz''])], Body = []\<rparr>
     \<lparr>world = [reply 400 [] ''digest invalid''],
      sent = [\<lparr>rq_Method = ''POST'', rq_URL = ''http://r/v2/demo/blobs/uploads/'',
               rq_Body = None, rq_Header = []\<rparr>,
              \<lparr>rq_Method = ''PATCH'', rq_URL = ''http://r/v2/demo/blobs/uploads/1'',
               rq_Body = Some ''abc'',
               rq_Header = [(''Content-Type'', [''application/octet-stream''])]\<rparr>]\<rparr>
   \<and> latest_location stub_lib demo_store ''http://r/v2/demo/blobs/uploads/1''
       \<lparr>StatusCode = 202, Status = [],
        Header = [(''Location'', [''/v2/demo/blobs/uploads/1?_state=xyz''])], Body = []\<rparr>
       = Inr ''http://r/v2/demo/blobs/uploads/1?_state=xyz''
   \<and> sent (snd (uploadBlob stub_lib scripted demo_store ''abc''
         \<lparr>world = [reply 202 [(''Location'', [''/v2/demo/blobs/uploads/1''])] [],
                   reply 202 [(''Location'', [''/v2/demo/blobs/uploads/1?_state=xyz''])] [],
                   reply 400 [] ''digest invalid''], sent = []\<rparr>))
       = [\<lparr>rq_Method = ''POST'', rq_URL = ''http://r/v2/demo/blobs/uploads/'',
           rq_Body = None, rq_Header = []\<rparr>,
          \<lparr>rq_Method = ''PATCH'', rq_URL = ''http://r/v2/demo/blobs/uploads/1'',
           rq_Body = Some ''abc'',
           rq_Header = [(''Content-Type'', [''application/octet-stream''])]\<rparr>,
          \<lparr>rq_Method = ''PUT'',
           rq_URL = ''http://r/v2/demo/blobs/uploads/1?_state=xyz&digest=sha256%3A616263'',
           rq_Body = None, rq_Header = []\<rparr>]
   \<and> fst (uploadBlob stub_lib scripted demo_store ''abc''
         \<lparr>world = [reply 202 [(''Location'', [''/v2/demo/blobs/uploads/1''])] [],
                   reply 202 [(''Location'', [''/v2/demo/blobs/uploads/1?_state=xyz''])] [],
                   reply 400 [] ''digest invalid''], sent = []\<rparr>)
       = Inl (ErrStatus ''PUT'' ''http://r/v2/demo/blobs/uploads/1?_state=xyz&digest=sha256%3A616263''
                [] ''digest invalid'')
   \<and> upload_streamed stub_lib scripted demo_store ''abc''
       \<lparr>world = [reply 202 [(''Location'', [''/v2/demo/blobs/uploads/1''])] [],
                 reply 202 [(''Location'', [''https://cdn.example/up/9''])] [],
                 reply 201 [] []], sent = []\<rparr>
       ''http://r/v2/demo/blobs/uploads/1''
       \<lparr>StatusCode = 202, Status = [],
        Header = [(''Location'', [''https://cdn.example/up/9''])], Body = []\<rparr>
       \<lparr>world = [reply 201 [] []],
        sent = [\<lparr>rq_Method = ''POST'', rq_URL = ''http://r/v2/demo/blobs/uploads/'',
                 rq_Body = None, rq_Header = []\<rparr>,
                \<lparr>rq_Method = ''PATCH'', rq_URL = ''http://r/v2/demo/blobs/uploads/1'',
                 rq_Body = Some ''abc'',
                 rq_Header = [(''Content-Type'', [''application/octet-stream''])]\<rparr>]\<rparr>
   \<and> latest_location stub_lib demo_store ''http://r/v2/demo/blobs/uploads/1''
       \<lparr>StatusCode = 202, Status = [],
        Header = [(''Location'', [''https://cdn.example/up/9''])], Body = []\<rparr>
       = Inr ''https://cdn.example/up/9''
   \<and> sent (snd (uploadBlob stub_lib scripted demo_store ''abc''
         \<lparr>world = [reply 202 [(''Location'', [''/v2/demo/blobs/uploads/1''])] [],
                   reply 202 [(''Location'', [''https://cdn.example/up/9''])] [],
                   reply 201 [] []], sent = []\<rparr>))
       = [\<lparr>rq_Method = ''POST'', rq_URL = ''http://r/v2/demo/blobs/uploads/'',
           rq_Body = None, rq_Header = []\<rparr>,
          \<lparr>rq_Method = ''PATCH'', rq_URL = ''http://r/v2/demo/blobs/uploads/1'',
           rq_Body = Some ''abc'',
           rq_Header = [(''Content-Type'', [''application/octet-stream''])]\<rparr>,
          \<lparr>rq_Method = ''PUT'',
           rq_URL = ''https://cdn.example/up/9?digest=sha256%3A616263'',
           rq_Body = None, rq_Header = []\<rparr>]"
proof -
  let ?st = "\<lparr>world = [reply 202 [(''Location'', [''/v2/demo/blobs/uploads/1''])] [],
               reply 202 [(''Location'', [''/v2/demo/blobs/uploads/1?_state=xyz''])] [],
               reply 400 [] ''digest invalid''], sent = []\<rparr>"
  let ?resp2 = "\<lparr>StatusCode = 202, Status = [],
      Header = [(''Location'', [''/v2/demo/blobs/uploads/1?_state=xyz''])], Body = []\<rparr>"
  let ?st2 = "\<lparr>world = [reply 400 [] ''digest invalid''],
      sent = [\<lparr>rq_Method = ''POST'', rq_URL = ''http://r/v2/demo/blobs/uploads/'',
               rq_Body = None, rq_Header = []\<rparr>,
              \<lparr>rq_Method = ''PATCH'', rq_URL = ''http://r/v2/demo/blobs/uploads/1'',
               rq_Body = Some ''abc'',
               rq_Header = [(''Content-Type'', [''application/octet-stream''])]\<rparr>]\<rparr>"
  let ?resp3 = "\<lparr>StatusCode = 400, Status = [], Header = [], Body = ''digest invalid''\<rparr>"
  let ?sta = "\<lparr>world = [reply 202 [(''Location'', [''/v2/demo/blobs/uploads/1''])] [],
               reply 202 [(''Location'', [''https://cdn.example/up/9''])] [],
               reply 201 [] []], sent = []\<rparr>"
  let ?resp2a = "\<lparr>StatusCode = 202, Status = [],
      Header = [(''Location'', [''https://cdn.example/up/9''])], Body = []\<rparr>"
  let ?st2a = "\<lparr>world = [reply 201 [] []],
      sent = [\<lparr>rq_Method = ''POST'', rq_URL = ''http://r/v2/demo/blobs/uploads/'',
               rq_Body = None, rq_Header = []\<rparr>,
              \<lparr>rq_Method = ''PATCH'', rq_URL = ''http://r/v2/demo/blobs/uploads/1'',
               rq_Body = Some ''abc'',
               rq_Header = [(''Content-Type'', [''application/octet-stream''])]\<rparr>]\<rparr>"
  let ?b = "plain_url\<lparr>Scheme := ''http'', Host := ''r''\<rparr>"
  let ?ref = "plain_url\<lparr>Path := ''/v2/demo/blobs/uploads/1'', RawQuery := ''_state=xyz''\<rparr>"
  let ?refa = "plain_url\<lparr>Scheme := ''https'', Host := ''cdn.example'', Path := ''/up/9''\<rparr>"
  have s: "upload_streamed stub_lib scripted demo_store ''abc'' ?st ''http://r/v2/demo/blobs/uploads/1''
             ?resp2 ?st2"
    unfolding upload_streamed_def
    by (rule exI [of _ "\<lparr>StatusCode = 202, Status = [],
                          Header = [(''Location'', [''/v2/demo/blobs/uploads/1''])], Body = []\<rparr>"],
        rule exI [of _ "\<lparr>world = [reply 202 [(''Location'', [''/v2/demo/blobs/uploads/1?_state=xyz''])] [],
                                   reply 400 [] ''digest invalid''],
                          sent = [\<lparr>rq_Method = ''POST'', rq_URL = ''http://r/v2/demo/blobs/uploads/'',
                                   rq_Body = None, rq_Header = []\<rparr>]\<rparr>"])
       (simp add: answers_def run_simps)
  have sa: "upload_streamed stub_lib scripted demo_store ''abc'' ?sta ''http://r/v2/demo/blobs/uploads/1''
             ?resp2a ?st2a"
    unfolding upload_streamed_def
    by (rule exI [of _ "\<lparr>StatusCode = 202, Status = [],
                          Header = [(''Location'', [''/v2/demo/blobs/uploads/1''])], Body = []\<rparr>"],
        rule exI [of _ "\<lparr>world = [reply 202 [(''Location'', [''https://cdn.example/up/9''])] [],
                                   reply 201 [] []],
                          sent = [\<lparr>rq_Method = ''POST'', rq_URL = ''http://r/v2/demo/blobs/uploads/'',
                                   rq_Body = None, rq_Header = []\<rparr>]\<rparr>"])
       (simp add: answers_def run_simps)
  have pb: "url_Parse stub_lib (strings_TrimRight (base demo_store) CHR ''/'') = Inr ?b"
    by (simp add: run_simps)
  have pr: "header_Get (Header ?resp2) ''Location'' \<noteq> []
            \<and> url_Parse stub_lib (header_Get (Header ?resp2) ''Location'') = Inr ?ref"
    by (simp add: run_simps)
  have pra: "header_Get (Header ?resp2a) ''Location'' \<noteq> []
            \<and> url_Parse stub_lib (header_Get (Header ?resp2a) ''Location'') = Inr ?refa"
    by (simp add: run_simps)
  have l: "latest_location stub_lib demo_store ''http://r/v2/demo/blobs/uploads/1'' ?resp2
             = Inr ''http://r/v2/demo/blobs/uploads/1?_state=xyz''"
    using finalize_at_latest_location [OF s, THEN conjunct2, THEN conjunct2, THEN conjunct1,
            rule_format, of ?b ?ref, THEN conjunct1] pb pr
    by (simp add: run_simps)
  have la: "latest_location stub_lib demo_store ''http://r/v2/demo/blobs/uploads/1'' ?resp2a
             = Inr ''https://cdn.example/up/9''"
    using finalize_at_latest_location [OF sa, THEN conjunct2, THEN conjunct2, THEN conjunct1,
            rule_format, of ?b ?refa, THEN conjunct1] pb pra
    by (simp add: run_simps)
  note k = finalize_at_latest_location [OF s, THEN conjunct2, THEN conjunct2, THEN conjunct2,
             THEN conjunct2, THEN conjunct1, rule_format, OF l]
  note ka = finalize_at_latest_location [OF sa, THEN conjunct2, THEN conjunct2, THEN conjunct2,
             THEN conjunct2, THEN conjunct1, rule_format, OF la]
  have x: "fmt_x (sha256_Sum stub_lib ''abc'') = ''616263''"
    by (simp add: stub_lib_def fmt_x_def hex_digit_def)
  have t: "scripted \<lparr>rq_Method = ''PUT'',
              rq_URL = ''http://r/v2/demo/blobs/uploads/1?_state=xyz&digest=sha256%3A616263'',
              rq_Body = None, rq_Header = []\<rparr> (world ?st2) = (Inr ?resp3, [])
           \<and> \<not> (200 \<le> StatusCode ?resp3 \<and> StatusCode ?resp3 < 300)"
    by (simp add: scripted_def reply_def)
  have a: "sent (snd (uploadBlob stub_lib scripted demo_store ''abc'' ?st))
       = sent ?st2 @ [\<lparr>rq_Method = ''PUT'',
           rq_URL = ''http://r/v2/demo/blobs/uploads/1?_state=xyz&digest=sha256%3A616263'',
           rq_Body = None, rq_Header = []\<rparr>]"
    using k [THEN conjunct1] by (simp add: strings_HasPrefix_def x)
  have b: "fst (uploadBlob stub_lib scripted demo_store ''abc'' ?st)
       = Inl (ErrStatus ''PUT'' ''http://r/v2/demo/blobs/uploads/1?_state=xyz&digest=sha256%3A616263''
                [] ''digest invalid'')"
    using k [THEN conjunct2, THEN conjunct1, rule_format, of ?resp3 "[]"] t
    by (simp add: strings_HasPrefix_def stub_lib_def fmt_x_def hex_digit_def)
  have aa: "sent (snd (uploadBlob stub_lib scripted demo_store ''abc'' ?sta))
       = sent ?st2a @ [\<lparr>rq_Method = ''PUT'',
           rq_URL = ''https://cdn.example/up/9?digest=sha256%3A616263'',
           rq_Body = None, rq_Header = []\<rparr>]"
    using ka [THEN conjunct1] by (simp add: strings_HasPrefix_def x)
  from s l a b sa la aa show ?thesis by simp
qed

subsection \<open>Manifests written\<close>












subsection \<open>Where the requests go\<close>

lemma strings_HasPrefix_append: "strings_HasPrefix (p @ q) p"
  by (simp add: strings_HasPrefix_def)











subsection \<open>The idealised registry, request by request\<close>

lemma strings_HasPrefix_same: "strings_HasPrefix (p @ x) (p @ y) = strings_HasPrefix x y"
  by (auto simp: strings_HasPrefix_def)

lemma registry_POST:
  "registry_serve s \<lparr>rq_Method = ''POST'', rq_URL = baseURL s (repoBase s @ ''/blobs/uploads/''),
                     rq_Body = None, rq_Header = []\<rparr> w
     = (reply 202 [(''Location'', [session_path s (reg_next w)])] [],
        w\<lparr>reg_sessions := (base s @ session_path s (reg_next w), []) # reg_sessions w,
          reg_next := Suc (reg_next w)\<rparr>)"
  by (simp add: registry_serve_def)

lemma registry_PATCH:
  "map_of (reg_sessions w) u = Some d \<Longrightarrow>
   registry_serve s \<lparr>rq_Method = ''PATCH'', rq_URL = u, rq_Body = Some b, rq_Header = h\<rparr> w
     = (reply 202 [] [], w\<lparr>reg_sessions := (u, d @ b) # reg_sessions w\<rparr>)"
  by (simp add: registry_serve_def)

lemma not_manifests_blobs:
  "\<not> strings_HasPrefix (baseURL s (repoBase s @ ''/blobs/'' @ x)) (baseURL s (repoBase s @ ''/manifests/''))"
proof -
  have "\<not> strings_HasPrefix (''/blobs/'' @ x) ''/manifests/''"
    by (simp add: strings_HasPrefix_def)
  then show ?thesis
    unfolding baseURL_def repoBase_def
    using strings_HasPrefix_same [of "base s @ ''/v2/'' @ repo s" "''/blobs/'' @ x" "''/manifests/''"]
    by simp
qed

lemma registry_PUT_finalize:
  assumes "reg_sessions w = (base s @ session_path s n, d) # ss"
  shows "registry_serve s \<lparr>rq_Method = ''PUT'',
                            rq_URL = finalize_url (base s @ session_path s n) (''sha256:'' @ fmt_x h),
                            rq_Body = None, rq_Header = []\<rparr> w
     = (reply 201 [] [], w\<lparr>reg_blobs := (reg_blobs w)(''sha256:'' @ fmt_x h \<mapsto> d)\<rparr>)"
proof -
  let ?k = "base s @ session_path s n"
  let ?u = "finalize_url ?k (''sha256:'' @ fmt_x h)"
  have u: "?u = ?k @ ''?digest='' @ ''sha256%3A'' @ fmt_x h \<or> ?u = ?k @ ''&digest='' @ ''sha256%3A'' @ fmt_x h"
    unfolding finalize_url_def url_QueryEscape_digest by simp
  have nm: "\<not> strings_HasPrefix ?u (baseURL s (repoBase s @ ''/manifests/''))"
  proof -
    have "\<exists>x. ?u = baseURL s (repoBase s @ ''/blobs/'' @ x)"
      using u by (auto simp: baseURL_def repoBase_def session_path_def)
    then show ?thesis using not_manifests_blobs by metis
  qed
  have f: "find_session ?u (reg_sessions w) = Some (?k, d)"
    using u assms strings_HasPrefix_append [of "?k @ ''?digest=''" "''sha256%3A'' @ fmt_x h"]
      strings_HasPrefix_append [of "?k @ ''&digest=''" "''sha256%3A'' @ fmt_x h"]
    by auto
  have q: "url_QueryUnescape (drop (length ?k + 8) ?u) = Some (''sha256:'' @ fmt_x h)"
    using u url_QueryUnescape_digest [of h] by auto
  show ?thesis
    using nm f q by (simp add: registry_serve_def)
qed

lemma registry_PUT_manifest:
  "registry_serve s \<lparr>rq_Method = ''PUT'', rq_URL = baseURL s (repoBase s @ ''/manifests/'' @ tag),
                     rq_Body = Some b, rq_Header = h\<rparr> w
     = (reply 201 [] [], w\<lparr>reg_manifests := (reg_manifests w)(tag \<mapsto> b)\<rparr>)"
proof -
  have "baseURL s (repoBase s @ ''/manifests/'' @ tag) = baseURL s (repoBase s @ ''/manifests/'') @ tag"
    by (simp add: baseURL_def)
  then show ?thesis
    by (simp add: registry_serve_def strings_HasPrefix_append)
qed

lemma registry_GET_manifest:
  "reg_manifests w tag = Some b \<Longrightarrow>
   registry_serve s \<lparr>rq_Method = ''GET'', rq_URL = baseURL s (repoBase s @ ''/manifests/'' @ tag),
                     rq_Body = None, rq_Header = h\<rparr> w
     = (reply 200 [] b, w)"
proof -
  assume a: "reg_manifests w tag = Some b"
  have "baseURL s (repoBase s @ ''/manifests/'' @ tag) = baseURL s (repoBase s @ ''/manifests/'') @ tag"
    by (simp add: baseURL_def)
  then show ?thesis
    using a by (simp add: registry_serve_def strings_HasPrefix_append)
qed

lemma registry_GET_blob:
  "reg_blobs w dg = Some b \<Longrightarrow>
   registry_serve s \<lparr>rq_Method = ''GET'', rq_URL = baseURL s (repoBase s @ ''/blobs/'' @ dg),
                     rq_Body = None, rq_Header = h\<rparr> w
     = (reply 200 [] b, w)"
proof -
  assume a: "reg_blobs w dg = Some b"
  have e: "baseURL s (repoBase s @ ''/blobs/'' @ dg) = baseURL s (repoBase s @ ''/blobs/'') @ dg"
    by (simp add: baseURL_def)
  have "\<not> strings_HasPrefix (baseURL s (repoBase s @ ''/blobs/'') @ dg) (baseURL s (repoBase s @ ''/manifests/''))"
    using not_manifests_blobs [of s dg] unfolding e .
  then show ?thesis
    using a unfolding e by (simp add: registry_serve_def strings_HasPrefix_append)
qed

subsection \<open>Round trip through the idealised registry\<close>

lemma session_path_not_Nil: "session_path s n \<noteq> []"
  by (simp add: session_path_def)

lemma uploadBlob_registry:
  assumes "resolveLocation lib s (session_path s (reg_next (world st)))
             = Inr (base s @ session_path s (reg_next (world st)))"
  shows "fst (uploadBlob lib (registry_serve s) s rd st)
           = Inr (''sha256:'' @ fmt_x (sha256_Sum lib rd), 0)"
    and "reg_blobs (world (snd (uploadBlob lib (registry_serve s) s rd st)))
           = (reg_blobs (world st))(''sha256:'' @ fmt_x (sha256_Sum lib rd) \<mapsto> rd)"
    and "reg_manifests (world (snd (uploadBlob lib (registry_serve s) s rd st)))
           = reg_manifests (world st)"
    and "reg_next (world (snd (uploadBlob lib (registry_serve s) s rd st)))
           = Suc (reg_next (world st))"
proof -
  let ?n = "reg_next (world st)"
  let ?k = "base s @ session_path s ?n"
  let ?w1 = "(world st)\<lparr>reg_sessions := (?k, []) # reg_sessions (world st), reg_next := Suc ?n\<rparr>"
  let ?w2 = "?w1\<lparr>reg_sessions := (?k, rd) # reg_sessions ?w1\<rparr>"
  let ?dg = "''sha256:'' @ fmt_x (sha256_Sum lib rd)"
  let ?w3 = "?w2\<lparr>reg_blobs := (reg_blobs ?w2)(?dg \<mapsto> rd)\<rparr>"
  have 1: "\<exists>snt. doRepo lib (registry_serve s) s ''POST'' ''/blobs/uploads/'' None [] st
          = (Inr \<lparr>StatusCode = 202, Status = [],
                  Header = [(''Location'', [session_path s ?n])], Body = []\<rparr>,
             \<lparr>world = ?w1, sent = snt\<rparr>)"
    by (simp add: doRepo_def do_def add_all_Nil registry_POST reply_def)
  then obtain snt1 where 1: "doRepo lib (registry_serve s) s ''POST'' ''/blobs/uploads/'' None [] st
          = (Inr \<lparr>StatusCode = 202, Status = [],
                  Header = [(''Location'', [session_path s ?n])], Body = []\<rparr>,
             \<lparr>world = ?w1, sent = snt1\<rparr>)"
    by blast
  have m: "map_of (reg_sessions ?w1) ?k = Some []"
    by simp
  have "\<exists>snt. do lib (registry_serve s) ''PATCH'' ?k (Some rd)
             [(''Content-Type'', [''application/octet-stream''])] \<lparr>world = ?w1, sent = snt1\<rparr>
          = (Inr ([], \<lparr>StatusCode = 202, Status = [], Header = [], Body = []\<rparr>),
             \<lparr>world = ?w2, sent = snt\<rparr>)"
    using registry_PATCH [OF m, of s rd]
    by (simp add: do_def add_all_single reply_def)
  then obtain snt2 where 2: "do lib (registry_serve s) ''PATCH'' ?k (Some rd)
             [(''Content-Type'', [''application/octet-stream''])] \<lparr>world = ?w1, sent = snt1\<rparr>
          = (Inr ([], \<lparr>StatusCode = 202, Status = [], Header = [], Body = []\<rparr>),
             \<lparr>world = ?w2, sent = snt2\<rparr>)"
    by blast
  have ss: "reg_sessions ?w2 = (?k, rd) # reg_sessions ?w1"
    by simp
  have "\<exists>snt. do lib (registry_serve s) ''PUT'' (finalize_url ?k ?dg) None [] \<lparr>world = ?w2, sent = snt2\<rparr>
          = (Inr ([], \<lparr>StatusCode = 201, Status = [], Header = [], Body = []\<rparr>),
             \<lparr>world = ?w3, sent = snt\<rparr>)"
    using registry_PUT_finalize [OF ss, of "sha256_Sum lib rd"]
    by (simp add: do_def add_all_Nil reply_def)
  then obtain snt3 where 3: "do lib (registry_serve s) ''PUT'' (finalize_url ?k ?dg) None []
             \<lparr>world = ?w2, sent = snt2\<rparr>
          = (Inr ([], \<lparr>StatusCode = 201, Status = [], Header = [], Body = []\<rparr>),
             \<lparr>world = ?w3, sent = snt3\<rparr>)"
    by blast
  have U: "uploadBlob lib (registry_serve s) s rd st = (Inr (?dg, 0), \<lparr>world = ?w3, sent = snt3\<rparr>)"
    using 1 2 3 assms session_path_not_Nil [of s ?n]
    by (simp add: uploadBlob_def Let_def header_Get_def header_values_def header_Set_Nil
          parseUploadedSize_def)
  show "fst (uploadBlob lib (registry_serve s) s rd st) = Inr (?dg, 0)"
    and "reg_blobs (world (snd (uploadBlob lib (registry_serve s) s rd st)))
           = (reg_blobs (world st))(?dg \<mapsto> rd)"
    and "reg_manifests (world (snd (uploadBlob lib (registry_serve s) s rd st)))
           = reg_manifests (world st)"
    and "reg_next (world (snd (uploadBlob lib (registry_serve s) s rd st))) = Suc ?n"
    unfolding U by simp_all
qed

lemma putByTag_registry:
  assumes "resolveLocation lib s (session_path s (reg_next (world st)))
             = Inr (base s @ session_path s (reg_next (world st)))"
    and "resolveLocation lib s (session_path s (Suc (reg_next (world st))))
             = Inr (base s @ session_path s (Suc (reg_next (world st))))"
    and "json_Marshal lib
           \<lparr>SchemaVersion = 2,
            ManifestMediaType = ''application/vnd.oci.image.manifest.v1+json'',
            Config = \<lparr>MediaType = ''application/vnd.oci.image.config.v1+json'',
                      Digest = ''sha256:'' @ fmt_x (sha256_Sum lib ''{}''), Size = 2\<rparr>,
            Layers = [\<lparr>MediaType = ''application/octet-stream'',
                       Digest = ''sha256:'' @ fmt_x (sha256_Sum lib rd), Size = 0\<rparr>]\<rparr> = Inr body"
  shows "fst (putByTag lib (registry_serve s) s tag rd st) = (0, None)"
    and "reg_manifests (world (snd (putByTag lib (registry_serve s) s tag rd st))) tag = Some body"
    and "reg_blobs (world (snd (putByTag lib (registry_serve s) s tag rd st)))
           = ((reg_blobs (world st))(''sha256:'' @ fmt_x (sha256_Sum lib rd) \<mapsto> rd))
               (''sha256:'' @ fmt_x (sha256_Sum lib ''{}'') \<mapsto> ''{}'')"
proof -
  obtain r1 st1 where 1: "uploadBlob lib (registry_serve s) s rd st = (r1, st1)"
    by (cases "uploadBlob lib (registry_serve s) s rd st")
  note u1 = uploadBlob_registry [OF assms(1), of rd, unfolded 1 fst_conv snd_conv]
  have a2: "resolveLocation lib s (session_path s (reg_next (world st1)))
             = Inr (base s @ session_path s (reg_next (world st1)))"
    using assms(2) u1(4) by simp
  obtain r2 st2 where 2: "uploadBlob lib (registry_serve s) s ''{}'' st1 = (r2, st2)"
    by (cases "uploadBlob lib (registry_serve s) s ''{}'' st1")
  note u2 = uploadBlob_registry [OF a2, of "''{}''", unfolded 2 fst_conv snd_conv]
  let ?w3 = "(world st2)\<lparr>reg_manifests := (reg_manifests (world st2))(tag \<mapsto> body)\<rparr>"
  have "\<exists>snt. doRepo lib (registry_serve s) s ''PUT'' (''/manifests/'' @ tag) (Some body)
                 [(''Content-Type'', [''application/vnd.oci.image.manifest.v1+json''])] st2
          = (Inr \<lparr>StatusCode = 201, Status = [], Header = [], Body = []\<rparr>,
             \<lparr>world = ?w3, sent = snt\<rparr>)"
    using registry_PUT_manifest [of s tag body _ "world st2"]
    by (simp add: doRepo_def do_def add_all_single reply_def)
  then obtain snt where 3: "doRepo lib (registry_serve s) s ''PUT'' (''/manifests/'' @ tag) (Some body)
                 [(''Content-Type'', [''application/vnd.oci.image.manifest.v1+json''])] st2
          = (Inr \<lparr>StatusCode = 201, Status = [], Header = [], Body = []\<rparr>,
             \<lparr>world = ?w3, sent = snt\<rparr>)"
    by blast
  have P: "putByTag lib (registry_serve s) s tag rd st = ((0, None), \<lparr>world = ?w3, sent = snt\<rparr>)"
    using 1 2 3 u1(1) u2(1) assms(3)
    by (simp add: putByTag_def Let_def header_Set_Nil)
  show "fst (putByTag lib (registry_serve s) s tag rd st) = (0, None)"
    and "reg_manifests (world (snd (putByTag lib (registry_serve s) s tag rd st))) tag = Some body"
    and "reg_blobs (world (snd (putByTag lib (registry_serve s) s tag rd st)))
           = ((reg_blobs (world st))(''sha256:'' @ fmt_x (sha256_Sum lib rd) \<mapsto> rd))
               (''sha256:'' @ fmt_x (sha256_Sum lib ''{}'') \<mapsto> ''{}'')"
    unfolding P using u1(2) u2(2) by simp_all
qed

lemma getByTag_registry:
  assumes "reg_manifests (world st) tag = Some body"
    and "json_Decode_manifest lib body = Inr man" "Layers man = l # ls" "Digest l \<noteq> []"
    and "reg_blobs (world st) (Digest l) = Some b"
  shows "fst (getByTag lib (registry_serve s) s tag [] st) = Inr b"
proof -
  have "\<exists>snt. doRepoRC lib (registry_serve s) s ''GET'' (''/manifests/'' @ tag) None
                 [(''Accept'', [accept_manifests])] st
          = (Inr (body, \<lparr>StatusCode = 200, Status = [], Header = [], Body = body\<rparr>),
             \<lparr>world = world st, sent = snt\<rparr>)"
    using registry_GET_manifest [OF assms(1), of s]
    by (simp add: doRepoRC_def do_def add_all_single reply_def)
  then obtain snt where 1: "doRepoRC lib (registry_serve s) s ''GET'' (''/manifests/'' @ tag) None
                 [(''Accept'', [accept_manifests])] st
          = (Inr (body, \<lparr>StatusCode = 200, Status = [], Header = [], Body = body\<rparr>),
             \<lparr>world = world st, sent = snt\<rparr>)"
    by blast
  have 2: "fst (doRepoBlobRC lib (registry_serve s) s (Digest l) [] \<lparr>world = world st, sent = snt\<rparr>) = Inr b"
    using registry_GET_blob [OF assms(5), of s]
    by (simp add: doRepoBlobRC_def do_def add_all_Nil reply_def)
  show ?thesis
    using 1 2 assms(2-4)
    by (simp add: getByTag_def Let_def header_Set_Nil add_all_Nil)
qed

lemma hex_digit_lt: "d < 16 \<Longrightarrow> d \<in> {0,1,2,3,4,5,6,7,8,9,10,11,12,13,14,15::nat}"
  by simp arith

lemma fromHexChar_hex_digit: "d < 16 \<Longrightarrow> fromHexChar (hex_digit d) = Some d"
  by (drule hex_digit_lt) (auto simp: hex_digit_def fromHexChar_def)

lemma hex_DecodeString_fmt_x: "hex_DecodeString (fmt_x bs) = (bs, None)"
proof (induction bs)
  case Nil
  show ?case by (simp add: fmt_x_def)
next
  case (Cons c cs)
  have "of_char c < (256 :: nat)" by simp
  then have a: "(of_char c :: nat) div 16 < 16"
    by (simp add: less_mult_imp_div_less)
  have b: "(of_char c :: nat) mod 16 < 16" by simp
  have e: "fmt_x (c # cs) = hex_digit (of_char c div 16) # hex_digit (of_char c mod 16) # fmt_x cs"
    by (simp add: fmt_x_def)
  show ?case
    unfolding e using Cons fromHexChar_hex_digit [OF a] fromHexChar_hex_digit [OF b]
    by simp
qed

lemma fmt_x_inj:
  assumes "fmt_x a = fmt_x b"
  shows "a = b"
proof -
  have "fst (hex_DecodeString (fmt_x a)) = fst (hex_DecodeString (fmt_x b))"
    by (simp only: assms)
  then show ?thesis
    by (simp only: hex_DecodeString_fmt_x fst_conv)
qed

text \<open>
  Claim C1. Against the idealised registry, for every supported category, every key (of
  32 bytes or not) and every payload: \<open>Put\<close> succeeds, and \<open>Get\<close> of the same category and
  key with no range, in the state that \<open>Put\<close> leaves, returns exactly the payload. The
  standard library is taken to resolve the paths of the next two upload sessions against
  the base of the store to the base followed by the path, to encode every manifest of one
  layer and decode the encoding to a manifest with the same layer digests, and to give the
  payload a sum other than that of \<open>{}\<close> unless the payload is \<open>{}\<close>.
\<close>

theorem put_get_round_trip:
  assumes "res = StorageResourcePackfile \<or> res = StorageResourceState \<or> res = StorageResourceLock"
    and "resolveLocation lib s (session_path s (reg_next (world st)))
           = Inr (base s @ session_path s (reg_next (world st)))"
    and "resolveLocation lib s (session_path s (Suc (reg_next (world st))))
           = Inr (base s @ session_path s (Suc (reg_next (world st))))"
    and "\<forall>man. length (Layers man) = 1 \<longrightarrow>
           (\<exists>body man'. json_Marshal lib man = Inr body
              \<and> json_Decode_manifest lib body = Inr man'
              \<and> map Digest (Layers man') = map Digest (Layers man))"
    and "sha256_Sum lib rd = sha256_Sum lib ''{}'' \<longrightarrow> rd = ''{}''"
  shows "snd (fst (Put lib (registry_serve s) s res mac rd st)) = None
       \<and> fst (Get lib (registry_serve s) s res mac None
                (snd (Put lib (registry_serve s) s res mac rd st))) = Inr rd"
proof -
  let ?dg = "''sha256:'' @ fmt_x (sha256_Sum lib rd)"
  let ?dc = "''sha256:'' @ fmt_x (sha256_Sum lib ''{}'')"
  let ?man = "\<lparr>SchemaVersion = 2,
            ManifestMediaType = ''application/vnd.oci.image.manifest.v1+json'',
            Config = \<lparr>MediaType = ''application/vnd.oci.image.config.v1+json'',
                      Digest = ?dc, Size = 2\<rparr>,
            Layers = [\<lparr>MediaType = ''application/octet-stream'',
                       Digest = ?dg, Size = 0\<rparr>]\<rparr>"
  obtain tag where put: "Put lib (registry_serve s) s res mac rd st
                           = putByTag lib (registry_serve s) s tag rd st"
    and get: "\<And>st'. Get lib (registry_serve s) s res mac None st'
                           = getByTag lib (registry_serve s) s tag [] st'"
    using assms(1) by (auto simp: Put_def Get_def)
  have "length (Layers ?man) = 1" by simp
  with assms(4) obtain body man' where
    m: "json_Marshal lib ?man = Inr body" and d: "json_Decode_manifest lib body = Inr man'"
    and l: "map Digest (Layers man') = map Digest (Layers ?man)"
    by blast
  from l obtain l' where l': "Layers man' = [l']" "Digest l' = ?dg"
    by auto
  note p = putByTag_registry [OF assms(2) assms(3) m, of tag]
  let ?st' = "snd (putByTag lib (registry_serve s) s tag rd st)"
  have b: "reg_blobs (world ?st') (Digest l') = Some rd"
  proof (cases "?dg = ?dc")
    case True
    then have "fmt_x (sha256_Sum lib rd) = fmt_x (sha256_Sum lib ''{}'')" by simp
    then have "rd = ''{}''" using assms(5) fmt_x_inj by blast
    then show ?thesis unfolding p(3) l'(2) by simp
  next
    case False
    then show ?thesis unfolding p(3) l'(2) by simp
  qed
  have ne: "Digest l' \<noteq> []" unfolding l'(2) by simp
  have "fst (getByTag lib (registry_serve s) s tag [] ?st') = Inr rd"
    by (rule getByTag_registry [OF p(2) d l'(1) ne b])
  then show ?thesis
    unfolding put get using p(1) by simp
qed

theorem put_get_round_trip_witness:
  "resolveLocation stub_lib demo_store ''/v2/demo/blobs/uploads/0''
     = Inr ''http://r/v2/demo/blobs/uploads/0''
   \<and> resolveLocation stub_lib demo_store ''/v2/demo/blobs/uploads/1''
     = Inr ''http://r/v2/demo/blobs/uploads/1''
   \<and> length ''0123456789abcdef0123456789abcdef'' = 32
   \<and> snd (fst (Put stub_lib (registry_serve demo_store) demo_store StorageResourceLock
                ''0123456789abcdef0123456789abcdef'' ''abc''
                \<lparr>world = \<lparr>reg_sessions = [], reg_blobs = Map.empty, reg_manifests = Map.empty,
                           reg_next = 0\<rparr>, sent = []\<rparr>)) = None
   \<and> fst (Get stub_lib (registry_serve demo_store) demo_store StorageResourceLock
           ''0123456789abcdef0123456789abcdef'' None
           (snd (Put stub_lib (registry_serve demo_store) demo_store StorageResourceLock
                ''0123456789abcdef0123456789abcdef'' ''abc''
                \<lparr>world = \<lparr>reg_sessions = [], reg_blobs = Map.empty, reg_manifests = Map.empty,
                           reg_next = 0\<rparr>, sent = []\<rparr>))) = Inr ''abc''"
proof -
  let ?st = "\<lparr>world = \<lparr>reg_sessions = [], reg_blobs = Map.empty, reg_manifests = Map.empty,
                           reg_next = 0\<rparr>, sent = []\<rparr>"
  have f: "fmt_d 0 = ''0''" "fmt_d (Suc 0) = ''1''"
    by (simp_all add: fmt_d.simps digit_char_def)
  have r0: "resolveLocation stub_lib demo_store ''/v2/demo/blobs/uploads/0''
     = Inr ''http://r/v2/demo/blobs/uploads/0''"
    by (simp add: run_simps)
  have r1: "resolveLocation stub_lib demo_store ''/v2/demo/blobs/uploads/1''
     = Inr ''http://r/v2/demo/blobs/uploads/1''"
    by (simp add: run_simps)
  have a2: "resolveLocation stub_lib demo_store (session_path demo_store (reg_next (world ?st)))
           = Inr (base demo_store @ session_path demo_store (reg_next (world ?st)))"
    using r0 by (simp add: session_path_def f demo_store_def)
  have a3: "resolveLocation stub_lib demo_store (session_path demo_store (Suc (reg_next (world ?st))))
           = Inr (base demo_store @ session_path demo_store (Suc (reg_next (world ?st))))"
    using r1 by (simp add: session_path_def f demo_store_def)
  have a4: "\<forall>man. length (Layers man) = 1 \<longrightarrow>
           (\<exists>body man'. json_Marshal stub_lib man = Inr body
              \<and> json_Decode_manifest stub_lib body = Inr man'
              \<and> map Digest (Layers man') = map Digest (Layers man))"
    by (auto simp: stub_lib_def stub_Marshal_def stub_Decode_manifest_def length_Suc_conv)
  have a5: "sha256_Sum stub_lib ''abc'' = sha256_Sum stub_lib ''{}'' \<longrightarrow> ''abc'' = ''{}''"
    by (simp add: stub_lib_def)
  have a1: "StorageResourceLock = StorageResourcePackfile \<or> StorageResourceLock = StorageResourceState
            \<or> StorageResourceLock = StorageResourceLock"
    by simp
  note t = put_get_round_trip [where lib = stub_lib and s = demo_store and st = ?st
             and res = StorageResourceLock and rd = "''abc''"
             and mac = "''0123456789abcdef0123456789abcdef''", OF a1 a2 a3 a4 a5]
  from t r0 r1 show ?thesis by simp
qed

end
